theory Spec2Isabelle
  imports Complex_Main "HOL-Library.Sublist"
begin

chapter \<open>The wedding planner: aggregation, mutations, redraw scheduling, storage\<close>

text \<open>
  The repository holds three variants of one client-side application:
  \<^item> \<^verbatim>\<open>App\<close> (\<^verbatim>\<open>src/docs/script.js\<close>, lines 13 to 955), with expenses, guests and tasks;
  \<^item> \<^verbatim>\<open>WeddingApp\<close>, the optimised engine (\<^verbatim>\<open>src/docs/script.js\<close>, lines 989 to 1558);
  \<^item> \<^verbatim>\<open>WeddingApp\<close>, the first version (\<^verbatim>\<open>src/unnamed/part_000\<close>).
  Definitions of the second variant carry the prefix \<open>W_\<close>, those of the third \<open>P_\<close>.
\<close>

section \<open>JavaScript values\<close>

subsection \<open>Numbers\<close>

text \<open>
  A JavaScript number is a finite value, one of the two infinities, or NaN. Finite
  values are exact rationals here: the rounding of IEEE 754 doubles, the overflow of a
  finite result to an infinity and the sign of zero are outside this development.
\<close>

datatype jsnum = Fin rat | PInf | NInf | NaN

text \<open>\<^verbatim>\<open>a + b\<close> on numbers.\<close>

fun jadd :: "jsnum \<Rightarrow> jsnum \<Rightarrow> jsnum" where
  "jadd (Fin a) (Fin b) = Fin (a + b)"
| "jadd NaN _ = NaN"
| "jadd _ NaN = NaN"
| "jadd PInf NInf = NaN"
| "jadd NInf PInf = NaN"
| "jadd PInf _ = PInf"
| "jadd _ PInf = PInf"
| "jadd NInf _ = NInf"
| "jadd _ NInf = NInf"

fun jneg :: "jsnum \<Rightarrow> jsnum" where
  "jneg (Fin a) = Fin (- a)"
| "jneg PInf = NInf"
| "jneg NInf = PInf"
| "jneg NaN = NaN"

text \<open>\<^verbatim>\<open>a - b\<close> on numbers.\<close>

definition jsub :: "jsnum \<Rightarrow> jsnum \<Rightarrow> jsnum" where
  "jsub a b = jadd a (jneg b)"

text \<open>The sign of a number that is not NaN: \<open>-1\<close>, \<open>0\<close> or \<open>1\<close>.\<close>

fun jsign :: "jsnum \<Rightarrow> int" where
  "jsign (Fin a) = (if a < 0 then - 1 else if a = 0 then 0 else 1)"
| "jsign PInf = 1"
| "jsign NInf = - 1"
| "jsign NaN = 0"

definition inf_of_sign :: "int \<Rightarrow> jsnum" where
  "inf_of_sign s = (if s < 0 then NInf else PInf)"

text \<open>\<^verbatim>\<open>a * b\<close> on numbers: zero times an infinity is NaN.\<close>

fun jmul :: "jsnum \<Rightarrow> jsnum \<Rightarrow> jsnum" where
  "jmul (Fin a) (Fin b) = Fin (a * b)"
| "jmul NaN _ = NaN"
| "jmul _ NaN = NaN"
| "jmul a b = (if jsign a * jsign b = 0 then NaN else inf_of_sign (jsign a * jsign b))"

text \<open>
  \<^verbatim>\<open>a / b\<close> on numbers. A finite value divided by zero is an infinity of the sign of
  the dividend, and \<^verbatim>\<open>0 / 0\<close> is NaN; nothing is thrown.
\<close>

fun jdiv :: "jsnum \<Rightarrow> jsnum \<Rightarrow> jsnum" where
  "jdiv NaN _ = NaN"
| "jdiv _ NaN = NaN"
| "jdiv (Fin a) (Fin b) =
     (if b \<noteq> 0 then Fin (a / b)
      else if a = 0 then NaN
      else inf_of_sign (jsign (Fin a)))"
| "jdiv (Fin a) PInf = Fin 0"
| "jdiv (Fin a) NInf = Fin 0"
| "jdiv a (Fin b) = inf_of_sign (jsign a * (if b < 0 then - 1 else 1))"
| "jdiv a b = NaN"

text \<open>\<^verbatim>\<open>a < b\<close> and \<^verbatim>\<open>a > b\<close> on numbers: every comparison with NaN is false.\<close>

fun jlt :: "jsnum \<Rightarrow> jsnum \<Rightarrow> bool" where
  "jlt NaN _ = False"
| "jlt _ NaN = False"
| "jlt (Fin a) (Fin b) = (a < b)"
| "jlt PInf _ = False"
| "jlt _ PInf = True"
| "jlt NInf _ = True"
| "jlt _ NInf = False"

definition jgt :: "jsnum \<Rightarrow> jsnum \<Rightarrow> bool" where
  "jgt a b = jlt b a"

text \<open>\<^verbatim>\<open>a >= b\<close> on numbers: false when \<^verbatim>\<open>a < b\<close> and when either side is NaN.\<close>

definition jge :: "jsnum \<Rightarrow> jsnum \<Rightarrow> bool" where
  "jge a b = (a \<noteq> NaN \<and> b \<noteq> NaN \<and> \<not> jlt a b)"

text \<open>\<^verbatim>\<open>Math.min(a, b)\<close>: NaN when either argument is NaN.\<close>

definition Math_min :: "jsnum \<Rightarrow> jsnum \<Rightarrow> jsnum" where
  "Math_min a b = (if a = NaN \<or> b = NaN then NaN else if jlt b a then b else a)"

text \<open>\<^verbatim>\<open>Math.round(a)\<close>: the nearest integer, a half rounded towards plus infinity.\<close>

fun Math_round :: "jsnum \<Rightarrow> jsnum" where
  "Math_round (Fin a) = Fin (of_int \<lfloor>a + 1 / 2\<rfloor>)"
| "Math_round a = a"

text \<open>The truth value of a number: zero and NaN are false.\<close>

definition num_truthy :: "jsnum \<Rightarrow> bool" where
  "num_truthy a = (a \<noteq> Fin 0 \<and> a \<noteq> NaN)"

text \<open>\<^verbatim>\<open>a || b\<close> where both sides are numbers.\<close>

definition num_or :: "jsnum \<Rightarrow> jsnum \<Rightarrow> jsnum" where
  "num_or a b = (if num_truthy a then a else b)"

subsection \<open>Primitive values and their coercions\<close>

text \<open>
  The leaves of a document hold primitive values. A property that is missing reads as
  \<open>JUndefined\<close>. Strings are byte strings: text beyond ASCII stands as its UTF-8 bytes.
\<close>

datatype jsval = JUndefined | JNull | JBool bool | JNum jsnum | JStr string

text \<open>White space that \<^verbatim>\<open>trim\<close> and the number parser strip (the ASCII part of it).\<close>

definition is_ws :: "char \<Rightarrow> bool" where
  "is_ws c = (c \<in> set [CHR 0x20, CHR 0x09, CHR 0x0A, CHR 0x0B, CHR 0x0C, CHR 0x0D])"

text \<open>\<^verbatim>\<open>s.trim()\<close>.\<close>

definition trim :: "string \<Rightarrow> string" where
  "trim s = rev (dropWhile is_ws (rev (dropWhile is_ws s)))"

definition is_digit :: "char \<Rightarrow> bool" where
  "is_digit c = (48 \<le> (of_char c :: nat) \<and> (of_char c :: nat) \<le> 57)"

text \<open>The value of a digit of a hexadecimal literal, if it is one.\<close>

definition hex_val :: "char \<Rightarrow> nat option" where
  "hex_val c =
     (let n = (of_char c :: nat) in
      if 48 \<le> n \<and> n \<le> 57 then Some (n - 48)
      else if 65 \<le> n \<and> n \<le> 70 then Some (n - 55)
      else if 97 \<le> n \<and> n \<le> 102 then Some (n - 87)
      else None)"

text \<open>The digits \<open>ds\<close> read in base \<open>b\<close>; \<open>None\<close> when one of them is not a digit of that base.\<close>

fun radix_val :: "nat \<Rightarrow> nat \<Rightarrow> string \<Rightarrow> nat option" where
  "radix_val b acc [] = Some acc"
| "radix_val b acc (c # cs) =
     (case hex_val c of
        None \<Rightarrow> None
      | Some d \<Rightarrow> if d < b then radix_val b (acc * b + d) cs else None)"

definition nondecimal :: "nat \<Rightarrow> string \<Rightarrow> jsnum" where
  "nondecimal b ds =
     (if ds = [] then NaN
      else case radix_val b 0 ds of None \<Rightarrow> NaN | Some n \<Rightarrow> Fin (of_nat n))"

definition dec_val :: "string \<Rightarrow> nat" where
  "dec_val ds = foldl (\<lambda>acc c. acc * 10 + ((of_char c :: nat) - 48)) 0 ds"

text \<open>The exponent part of a decimal literal: empty, or \<^verbatim>\<open>e\<close> with a signed integer.\<close>

definition exponent_part :: "string \<Rightarrow> int option" where
  "exponent_part s =
     (case s of
        [] \<Rightarrow> Some 0
      | c # r \<Rightarrow>
          if c = CHR ''e'' \<or> c = CHR ''E'' then
            (let neg = (r \<noteq> [] \<and> hd r = CHR ''-'');
                 ds = (if r \<noteq> [] \<and> (hd r = CHR ''+'' \<or> hd r = CHR ''-'') then tl r else r)
             in if ds \<noteq> [] \<and> list_all is_digit ds
                then Some (if neg then - int (dec_val ds) else int (dec_val ds))
                else None)
          else None)"

definition pow10 :: "int \<Rightarrow> rat" where
  "pow10 e = (if 0 \<le> e then 10 ^ nat e else 1 / 10 ^ nat (- e))"

text \<open>An unsigned decimal literal: digits, an optional fraction, an optional exponent.\<close>

definition unsigned_decimal :: "string \<Rightarrow> rat option" where
  "unsigned_decimal s =
     (let ip = takeWhile is_digit s;
          r1 = dropWhile is_digit s;
          dot = (r1 \<noteq> [] \<and> hd r1 = CHR ''.'');
          fp = (if dot then takeWhile is_digit (tl r1) else []);
          r2 = (if dot then dropWhile is_digit (tl r1) else r1)
      in if ip = [] \<and> fp = [] then None
         else case exponent_part r2 of
                None \<Rightarrow> None
              | Some e \<Rightarrow>
                  Some ((of_nat (dec_val ip) + of_nat (dec_val fp) / 10 ^ length fp) * pow10 e))"

definition signed_decimal :: "string \<Rightarrow> jsnum" where
  "signed_decimal s =
     (let neg = (s \<noteq> [] \<and> hd s = CHR ''-'');
          u = (if s \<noteq> [] \<and> (hd s = CHR ''+'' \<or> hd s = CHR ''-'') then tl s else s)
      in if u = ''Infinity'' then (if neg then NInf else PInf)
         else case unsigned_decimal u of
                None \<Rightarrow> NaN
              | Some r \<Rightarrow> Fin (if neg then - r else r))"

text \<open>
  The number a string converts to: white space is stripped, the empty string is \<open>0\<close>,
  a binary, octal or hexadecimal integer literal or a signed decimal literal is its
  value, and every other string is NaN.
\<close>

definition StringToNumber :: "string \<Rightarrow> jsnum" where
  "StringToNumber s =
     (let t = trim s in
      if t = [] then Fin 0
      else if take 2 t = ''0x'' \<or> take 2 t = ''0X'' then nondecimal 16 (drop 2 t)
      else if take 2 t = ''0o'' \<or> take 2 t = ''0O'' then nondecimal 8 (drop 2 t)
      else if take 2 t = ''0b'' \<or> take 2 t = ''0B'' then nondecimal 2 (drop 2 t)
      else signed_decimal t)"

text \<open>\<^verbatim>\<open>Number(v)\<close>, which is also the coercion of \<^verbatim>\<open>-\<close>, \<^verbatim>\<open>/\<close> and \<^verbatim>\<open>>\<close>.\<close>

fun Number :: "jsval \<Rightarrow> jsnum" where
  "Number JUndefined = NaN"
| "Number JNull = Fin 0"
| "Number (JBool b) = (if b then Fin 1 else Fin 0)"
| "Number (JNum n) = n"
| "Number (JStr s) = StringToNumber s"

text \<open>The truth value of a value, as \<^verbatim>\<open>!v\<close>, \<^verbatim>\<open>v || w\<close> and \<^verbatim>\<open>if (v)\<close> read it.\<close>

fun truthy :: "jsval \<Rightarrow> bool" where
  "truthy JUndefined = False"
| "truthy JNull = False"
| "truthy (JBool b) = b"
| "truthy (JNum n) = num_truthy n"
| "truthy (JStr s) = (s \<noteq> [])"

text \<open>\<^verbatim>\<open>v || w\<close>.\<close>

definition js_or :: "jsval \<Rightarrow> jsval \<Rightarrow> jsval" where
  "js_or v w = (if truthy v then v else w)"

section \<open>The application \<^verbatim>\<open>App\<close>: documents and the aggregation engine\<close>

subsection \<open>The document\<close>

text \<open>
  The lists of a document are arrays of objects; the properties of an object are
  primitive values, \<open>JUndefined\<close> when the property is missing. The fields carry the
  source's property names behind a letter for their object.
\<close>

record app_settings =
  groom :: jsval
  bride :: jsval
  date :: jsval
  budget :: jsval
  guest_estimate :: jsval

record expense =
  e_id :: jsval
  e_title :: jsval
  e_category :: jsval
  e_cost :: jsval
  e_paid :: jsval
  e_note :: jsval
  e_created :: jsval

record guest =
  g_id :: jsval
  g_name :: jsval
  g_side :: jsval
  g_count :: jsval
  g_status :: jsval
  g_gift :: jsval
  g_created :: jsval

record task =
  t_id :: jsval
  t_title :: jsval
  t_category :: jsval
  t_done :: jsval
  t_created :: jsval

record app_data =
  onboarded :: jsval
  settings :: app_settings
  expenses :: "expense list"
  guests :: "guest list"
  tasks :: "task list"

text \<open>The status strings of a guest, in UTF-8: "arriving" and "not arriving".\<close>

definition STATUS_CONFIRMED :: string where
  "STATUS_CONFIRMED = [CHR 0xD7, CHR 0x9E, CHR 0xD7, CHR 0x92, CHR 0xD7, CHR 0x99, CHR 0xD7, CHR 0xA2]"

definition STATUS_DECLINED :: string where
  "STATUS_DECLINED = [CHR 0xD7, CHR 0x9C, CHR 0xD7, CHR 0x90, CHR 0x20] @ STATUS_CONFIRMED"

text \<open>The option "not yet confirmed" of the guest form.\<close>

definition STATUS_PENDING :: string where
  "STATUS_PENDING = [CHR 0xD7, CHR 0x98, CHR 0xD7, CHR 0xA8, CHR 0xD7, CHR 0x9D, CHR 0x20,
                     CHR 0xD7, CHR 0x90, CHR 0xD7, CHR 0x99, CHR 0xD7, CHR 0xA9, CHR 0xD7, CHR 0xA8]"

text \<open>The default names of the couple.\<close>

definition GROOM_DEFAULT :: string where
  "GROOM_DEFAULT = [CHR 0xD7, CHR 0x94, CHR 0xD7, CHR 0x97, CHR 0xD7, CHR 0xAA, CHR 0xD7, CHR 0x9F]"

definition BRIDE_DEFAULT :: string where
  "BRIDE_DEFAULT = [CHR 0xD7, CHR 0x94, CHR 0xD7, CHR 0x9B, CHR 0xD7, CHR 0x9C, CHR 0xD7, CHR 0x94]"

text \<open>\<^verbatim>\<open>App.defaults\<close>.\<close>

definition defaults :: app_data where
  "defaults =
     \<lparr>onboarded = JBool False,
      settings = \<lparr>groom = JStr GROOM_DEFAULT, bride = JStr BRIDE_DEFAULT, date = JStr [],
                  budget = JNum (Fin 150000), guest_estimate = JNum (Fin 300)\<rparr>,
      expenses = [], guests = [], tasks = []\<rparr>"

subsection \<open>\<^verbatim>\<open>App.compute\<close>\<close>

text \<open>The aggregation snapshot, \<^verbatim>\<open>App._cache\<close>.\<close>

record snapshot =
  totalCost :: jsnum
  totalPaid :: jsnum
  expRemaining :: jsnum
  budgetLeft :: jsnum
  budgetPercent :: jsnum
  totalGuests :: jsnum
  confirmed :: jsnum
  pending :: jsnum
  declined :: jsnum
  gifts :: jsnum
  doneTasks :: jsnum
  totalTasks :: jsnum
  taskPercent :: jsnum
  weddingProgress :: jsnum

text \<open>
  The loop over the expenses. The accumulators are the source's \<^verbatim>\<open>totalCost\<close> and
  \<^verbatim>\<open>totalPaid\<close>, written \<open>tc\<close> and \<open>tp\<close>.
\<close>

fun expenses_loop :: "expense list \<Rightarrow> jsnum \<times> jsnum \<Rightarrow> jsnum \<times> jsnum" where
  "expenses_loop [] acc = acc"
| "expenses_loop (e # es) (tc, tp) =
     expenses_loop es
       (jadd tc (num_or (Number (e_cost e)) (Fin 0)),
        jadd tp (num_or (Number (e_paid e)) (Fin 0)))"

text \<open>
  The loop over the guests. The accumulators are the source's \<^verbatim>\<open>totalGuests\<close>,
  \<^verbatim>\<open>confirmed\<close>, \<^verbatim>\<open>pending\<close>, \<^verbatim>\<open>declined\<close> and \<^verbatim>\<open>gifts\<close>, written \<open>tg\<close>, \<open>co\<close>, \<open>pe\<close>,
  \<open>de\<close> and \<open>gi\<close>.
\<close>

fun guests_loop ::
  "guest list \<Rightarrow> jsnum \<times> jsnum \<times> jsnum \<times> jsnum \<times> jsnum
     \<Rightarrow> jsnum \<times> jsnum \<times> jsnum \<times> jsnum \<times> jsnum" where
  "guests_loop [] acc = acc"
| "guests_loop (g # gs) (tg, co, pe, de, gi) =
     (let cnt = num_or (Number (g_count g)) (Fin 1);
          tg' = jadd tg cnt;
          gi' = jadd gi (num_or (Number (g_gift g)) (Fin 0))
      in if g_status g = JStr STATUS_CONFIRMED
           then guests_loop gs (tg', jadd co cnt, pe, de, gi')
         else if g_status g = JStr STATUS_DECLINED
           then guests_loop gs (tg', co, pe, jadd de cnt, gi')
         else guests_loop gs (tg', co, jadd pe cnt, de, gi'))"

text \<open>The length of an array, as a number.\<close>

definition js_length :: "'a list \<Rightarrow> jsnum" where
  "js_length xs = Fin (of_nat (length xs))"

text \<open>
  The progress percentage of \<^verbatim>\<open>compute\<close> before its last \<^verbatim>\<open>Math.min\<close>: the source's
  \<^verbatim>\<open>progressItems\<close> is \<open>items\<close>, its \<^verbatim>\<open>progressDone\<close> is \<open>done0\<close>, \<open>done1\<close> and \<open>done2\<close>
  as the two tests increment it (\<open>exps\<close> is the source's \<^verbatim>\<open>exp\<close>, a name HOL has taken).
\<close>

definition progress_of :: "expense list \<Rightarrow> guest list \<Rightarrow> jsnum \<Rightarrow> jsnum \<Rightarrow> jsnum" where
  "progress_of exps gst dn tt =
     (let items = jadd tt (Fin 2);
          done0 = dn;
          done1 = (if jgt (js_length exps) (Fin 0) then jadd done0 (Fin 1) else done0);
          done2 = (if jgt (js_length gst) (Fin 0) then jadd done1 (Fin 1) else done1)
      in if jgt items (Fin 0)
         then Math_round (jmul (jdiv done2 items) (Fin 100))
         else Fin 0)"

text \<open>The body of \<^verbatim>\<open>compute\<close> after the cache test: the snapshot of a document.\<close>

definition compute_fresh :: "app_data \<Rightarrow> snapshot" where
  "compute_fresh d =
     (let exps = expenses d; gst = guests d; tsk = tasks d;
          (tc, tp) = expenses_loop exps (Fin 0, Fin 0);
          (tg, co, pe, de, gi) = guests_loop gst (Fin 0, Fin 0, Fin 0, Fin 0, Fin 0);
          dn = js_length (filter (\<lambda>t. truthy (t_done t)) tsk);
          tt = js_length tsk;
          wp = progress_of exps gst dn tt
      in \<lparr>totalCost = tc, totalPaid = tp,
          expRemaining = jsub tc tp,
          budgetLeft = jsub (Number (budget (settings d))) tp,
          budgetPercent =
            (if jgt (Number (budget (settings d))) (Fin 0)
             then Math_min (jdiv tp (Number (budget (settings d)))) (Fin 1)
             else Fin 0),
          totalGuests = tg, confirmed = co, pending = pe, declined = de, gifts = gi,
          doneTasks = dn, totalTasks = tt,
          taskPercent = (if jgt tt (Fin 0) then jdiv dn tt else Fin 0),
          weddingProgress = Math_min wp (Fin 100)\<rparr>)"

subsection \<open>The state of the running application\<close>

text \<open>
  What is stored under the application's key of \<^verbatim>\<open>localStorage\<close>, by what
  \<^verbatim>\<open>JSON.parse\<close> makes of it: the empty string, a text on which \<^verbatim>\<open>JSON.parse\<close> or the
  property reads that follow it throw, or a text that parses to a value of type \<open>'p\<close>.
  The text itself is not modelled.
\<close>

datatype 'p stored = Blank | Garbage | Json 'p

text \<open>
  A parsed document: a list or the settings object may be missing. A value that is not
  an object has none of the properties.
\<close>

record parsed_data =
  p_onboarded :: jsval
  p_settings :: "app_settings option"
  p_expenses :: "expense list option"
  p_guests :: "guest list option"
  p_tasks :: "task list option"

text \<open>What the user is shown beside the views: a field highlighted, a toast, an alert.\<close>

datatype notice = Shake string | Toast string | Alert

text \<open>How a handler ends: it returns, or an exception leaves it with the state as it is then.\<close>

datatype 'a outcome = Returned 'a | Threw 'a

text \<open>The state a handler leaves, however it ends.\<close>

fun outcome_state :: "'a outcome \<Rightarrow> 'a" where
  "outcome_state (Returned a) = a"
| "outcome_state (Threw a) = a"

text \<open>
  The application object with its surroundings: \<open>storage\<close> is the entry of
  \<^verbatim>\<open>localStorage\<close> under \<^verbatim>\<open>App.DB\<close>, \<open>quota_ok\<close> says whether \<^verbatim>\<open>setItem\<close> succeeds,
  \<open>frame_callbacks\<close> counts the callbacks handed to \<^verbatim>\<open>requestAnimationFrame\<close> that
  have not run yet, and \<open>redraws\<close> counts the calls of \<^verbatim>\<open>renderAll\<close>.
\<close>

record app =
  data :: app_data
  cache :: "snapshot option"
  raf :: bool
  frame_callbacks :: nat
  storage :: "parsed_data stored option"
  quota_ok :: bool
  redraws :: nat
  notices :: "notice list"

text \<open>\<^verbatim>\<open>App.compute\<close>: the cached snapshot when there is one.\<close>

definition compute :: "app \<Rightarrow> snapshot \<times> app" where
  "compute a =
     (case cache a of
        Some c \<Rightarrow> (c, a)
      | None \<Rightarrow> (let c = compute_fresh (data a) in (c, a\<lparr>cache := Some c\<rparr>)))"

text \<open>\<^verbatim>\<open>App.scheduleRender\<close>.\<close>

definition scheduleRender :: "app \<Rightarrow> app" where
  "scheduleRender a =
     (if raf a then a
      else a\<lparr>raf := True, frame_callbacks := frame_callbacks a + 1\<rparr>)"

text \<open>\<^verbatim>\<open>App.toast\<close>, by its type.\<close>

definition toast :: "string \<Rightarrow> app \<Rightarrow> app" where
  "toast ty a = a\<lparr>notices := notices a @ [Toast ty]\<rparr>"

text \<open>\<^verbatim>\<open>App.shakeEl\<close>.\<close>

definition shakeEl :: "string \<Rightarrow> app \<Rightarrow> app" where
  "shakeEl el a = a\<lparr>notices := notices a @ [Shake el]\<rparr>"

subsection \<open>The storage adapter: \<^verbatim>\<open>App.load\<close> and \<^verbatim>\<open>App.save\<close>\<close>

text \<open>
  What \<^verbatim>\<open>JSON.stringify\<close> keeps of a leaf: NaN and the infinities are written as
  \<^verbatim>\<open>null\<close>; a property whose value is \<^verbatim>\<open>undefined\<close> is left out, so it reads as
  missing afterwards.
\<close>

fun json_leaf :: "jsval \<Rightarrow> jsval" where
  "json_leaf (JNum (Fin r)) = JNum (Fin r)"
| "json_leaf (JNum n) = JNull"
| "json_leaf v = v"

definition json_settings :: "app_settings \<Rightarrow> app_settings" where
  "json_settings s =
     \<lparr>groom = json_leaf (groom s), bride = json_leaf (bride s), date = json_leaf (date s),
      budget = json_leaf (budget s), guest_estimate = json_leaf (guest_estimate s)\<rparr>"

definition json_expense :: "expense \<Rightarrow> expense" where
  "json_expense e =
     \<lparr>e_id = json_leaf (e_id e), e_title = json_leaf (e_title e),
      e_category = json_leaf (e_category e), e_cost = json_leaf (e_cost e),
      e_paid = json_leaf (e_paid e), e_note = json_leaf (e_note e),
      e_created = json_leaf (e_created e)\<rparr>"

definition json_guest :: "guest \<Rightarrow> guest" where
  "json_guest g =
     \<lparr>g_id = json_leaf (g_id g), g_name = json_leaf (g_name g), g_side = json_leaf (g_side g),
      g_count = json_leaf (g_count g), g_status = json_leaf (g_status g),
      g_gift = json_leaf (g_gift g), g_created = json_leaf (g_created g)\<rparr>"

definition json_task :: "task \<Rightarrow> task" where
  "json_task t =
     \<lparr>t_id = json_leaf (t_id t), t_title = json_leaf (t_title t),
      t_category = json_leaf (t_category t), t_done = json_leaf (t_done t),
      t_created = json_leaf (t_created t)\<rparr>"

text \<open>The value that the text \<^verbatim>\<open>JSON.stringify(this.data)\<close> parses to.\<close>

definition stringify :: "app_data \<Rightarrow> parsed_data" where
  "stringify d =
     \<lparr>p_onboarded = json_leaf (onboarded d),
      p_settings = Some (json_settings (settings d)),
      p_expenses = Some (map json_expense (expenses d)),
      p_guests = Some (map json_guest (guests d)),
      p_tasks = Some (map json_task (tasks d))\<rparr>"

text \<open>One property of a spread \<^verbatim>\<open>{...dflt, ...parsed}\<close>: the parsed value unless it is missing.\<close>

definition spread_leaf :: "jsval \<Rightarrow> jsval \<Rightarrow> jsval" where
  "spread_leaf dflt v = (if v = JUndefined then dflt else v)"

text \<open>\<^verbatim>\<open>{ ...this.defaults.settings, ...parsed.settings }\<close>.\<close>

definition spread_settings :: "app_settings \<Rightarrow> app_settings option \<Rightarrow> app_settings" where
  "spread_settings dflt ps =
     (case ps of
        None \<Rightarrow> dflt
      | Some s \<Rightarrow>
          \<lparr>groom = spread_leaf (groom dflt) (groom s),
           bride = spread_leaf (bride dflt) (bride s),
           date = spread_leaf (date dflt) (date s),
           budget = spread_leaf (budget dflt) (budget s),
           guest_estimate = spread_leaf (guest_estimate dflt) (guest_estimate s)\<rparr>)"

text \<open>
  \<^verbatim>\<open>App.load\<close>. A missing key and an empty text are falsy, so the defaults are taken;
  an exception is caught and the defaults are taken; a parsed document is spread over
  the defaults.
\<close>

definition load :: "app \<Rightarrow> app" where
  "load a =
     (case storage a of
        None \<Rightarrow> a\<lparr>data := defaults\<rparr>
      | Some Blank \<Rightarrow> a\<lparr>data := defaults\<rparr>
      | Some Garbage \<Rightarrow> a\<lparr>data := defaults\<rparr>
      | Some (Json parsed) \<Rightarrow>
          a\<lparr>data :=
              \<lparr>onboarded = spread_leaf (onboarded defaults) (p_onboarded parsed),
               settings = spread_settings (settings defaults) (p_settings parsed),
               expenses = (case p_expenses parsed of None \<Rightarrow> expenses defaults | Some xs \<Rightarrow> xs),
               guests = (case p_guests parsed of None \<Rightarrow> guests defaults | Some xs \<Rightarrow> xs),
               tasks = (case p_tasks parsed of None \<Rightarrow> tasks defaults | Some xs \<Rightarrow> xs)\<rparr>\<rparr>)"

text \<open>
  \<^verbatim>\<open>App.save\<close>: write the document, or show a toast when \<^verbatim>\<open>setItem\<close> throws; then drop
  the cache and schedule a redraw.
\<close>

definition save :: "app \<Rightarrow> app" where
  "save a =
     (let a1 = (if quota_ok a then a\<lparr>storage := Some (Json (stringify (data a)))\<rparr>
                else toast ''error'' a)
      in scheduleRender (a1\<lparr>cache := None\<rparr>))"

subsection \<open>Rendering and the animation frame\<close>

text \<open>
  \<^verbatim>\<open>App.renderAll\<close>: every renderer reads \<^verbatim>\<open>compute()\<close>; what they write to the page is
  not modelled, the call is counted.
\<close>

definition renderAll :: "app \<Rightarrow> app" where
  "renderAll a = (let (c, a1) = compute a in a1\<lparr>redraws := redraws a1 + 1\<rparr>)"

text \<open>A mutation: a change of the document followed by \<^verbatim>\<open>save()\<close>.\<close>

definition mutate :: "(app_data \<Rightarrow> app_data) \<Rightarrow> app \<Rightarrow> app" where
  "mutate f a = save (a\<lparr>data := f (data a)\<rparr>)"

definition mutations :: "(app_data \<Rightarrow> app_data) list \<Rightarrow> app \<Rightarrow> app" where
  "mutations fs a = foldl (\<lambda>a f. mutate f a) a fs"

text \<open>
  The callback that \<^verbatim>\<open>scheduleRender\<close> hands to \<^verbatim>\<open>requestAnimationFrame\<close>: the flag is
  cleared, then \<^verbatim>\<open>renderAll\<close> runs. \<open>during\<close> lists the mutations made while it runs.
\<close>

definition frame_callback :: "(app_data \<Rightarrow> app_data) list \<Rightarrow> app \<Rightarrow> app" where
  "frame_callback during a = mutations during (renderAll (a\<lparr>raf := False\<rparr>))"

fun run_callbacks :: "nat \<Rightarrow> (app_data \<Rightarrow> app_data) list \<Rightarrow> app \<Rightarrow> app" where
  "run_callbacks 0 during a = a"
| "run_callbacks (Suc n) during a = run_callbacks n during (frame_callback during a)"

text \<open>
  An animation frame: the browser runs the callbacks queued before the frame; one
  queued while they run waits for the next frame.
\<close>

definition animation_frame :: "(app_data \<Rightarrow> app_data) list \<Rightarrow> app \<Rightarrow> app" where
  "animation_frame during a =
     run_callbacks (frame_callbacks a) during (a\<lparr>frame_callbacks := 0\<rparr>)"

subsection \<open>The mutation handlers of \<^verbatim>\<open>App\<close>\<close>

text \<open>\<^verbatim>\<open>ToIntegerOrInfinity\<close>: NaN is \<open>0\<close>, a finite value is truncated towards zero.\<close>

fun ToIntegerOrInfinity :: "jsnum \<Rightarrow> jsnum" where
  "ToIntegerOrInfinity NaN = Fin 0"
| "ToIntegerOrInfinity (Fin r) = Fin (of_int (if r < 0 then \<lceil>r\<rceil> else \<lfloor>r\<rfloor>))"
| "ToIntegerOrInfinity n = n"

text \<open>
  The start of \<^verbatim>\<open>xs.splice(idx, ...)\<close>: a negative index counts from the end, and the
  result is kept between \<open>0\<close> and the length.
\<close>

definition splice_start :: "jsnum \<Rightarrow> nat \<Rightarrow> nat" where
  "splice_start idx len =
     (case ToIntegerOrInfinity idx of
        NInf \<Rightarrow> 0
      | PInf \<Rightarrow> len
      | NaN \<Rightarrow> 0
      | Fin r \<Rightarrow> (if r < 0 then nat (max (int len + \<lfloor>r\<rfloor>) 0) else min (nat \<lfloor>r\<rfloor>) len))"

text \<open>The array after \<^verbatim>\<open>xs.splice(idx, 1)\<close>: at most one element leaves, at the start.\<close>

definition splice1 :: "jsnum \<Rightarrow> 'a list \<Rightarrow> 'a list" where
  "splice1 idx xs =
     (let len = length xs;
          actualStart = splice_start idx len;
          deleteCount = min 1 (len - actualStart)
      in take actualStart xs @ drop (actualStart + deleteCount) xs)"

text \<open>
  \<^verbatim>\<open>App.deleteExpense\<close>, \<^verbatim>\<open>App.deleteGuest\<close> and \<^verbatim>\<open>App.deleteTask\<close>; \<open>ok\<close> is the answer
  to \<^verbatim>\<open>confirm\<close>.
\<close>

definition deleteExpense :: "bool \<Rightarrow> jsnum \<Rightarrow> app \<Rightarrow> app" where
  "deleteExpense ok idx a =
     (if \<not> ok then a
      else toast ''info'' (save (a\<lparr>data := (data a)\<lparr>expenses := splice1 idx (expenses (data a))\<rparr>\<rparr>)))"

definition deleteGuest :: "bool \<Rightarrow> jsnum \<Rightarrow> app \<Rightarrow> app" where
  "deleteGuest ok idx a =
     (if \<not> ok then a
      else toast ''info'' (save (a\<lparr>data := (data a)\<lparr>guests := splice1 idx (guests (data a))\<rparr>\<rparr>)))"

definition deleteTask :: "bool \<Rightarrow> jsnum \<Rightarrow> app \<Rightarrow> app" where
  "deleteTask ok idx a =
     (if \<not> ok then a
      else toast ''info'' (save (a\<lparr>data := (data a)\<lparr>tasks := splice1 idx (tasks (data a))\<rparr>\<rparr>)))"

text \<open>
  \<^verbatim>\<open>App.toggleTask\<close>, the one handler that tests its index. An index that passes the
  test and is no integer (or is NaN) reads \<^verbatim>\<open>undefined\<close> from the array, and the
  property read on it throws.
\<close>

definition toggleTask :: "jsnum \<Rightarrow> app \<Rightarrow> app outcome" where
  "toggleTask idx a =
     (if jlt idx (Fin 0) \<or> jge idx (js_length (tasks (data a))) then Returned a
      else case idx of
        Fin r \<Rightarrow>
          if r = of_int \<lfloor>r\<rfloor> then
            (let i = nat \<lfloor>r\<rfloor>;
                 t = tasks (data a) ! i;
                 t' = t\<lparr>t_done := JBool (\<not> truthy (t_done t))\<rparr>;
                 a1 = save (a\<lparr>data := (data a)\<lparr>tasks := (tasks (data a))[i := t']\<rparr>\<rparr>)
             in Returned (if truthy (t_done t') then toast ''success'' a1 else a1))
          else Threw a
      | _ \<Rightarrow> Threw a)"

text \<open>The time a handler reads: \<^verbatim>\<open>Date.now()\<close> and \<^verbatim>\<open>new Date().toISOString()\<close>.\<close>

record clock =
  now :: rat
  iso :: string

text \<open>The values of the fields of the expense form, named by their element ids.\<close>

record expense_form =
  mExpTitle :: string
  mExpCat :: string
  mExpCost :: string
  mExpPaid :: string
  mExpNote :: string

text \<open>The save handler of \<^verbatim>\<open>App.openExpenseModal\<close>.\<close>

definition expense_save :: "clock \<Rightarrow> expense_form \<Rightarrow> app \<Rightarrow> app" where
  "expense_save ck f a =
     (let title = trim (mExpTitle f); cost = mExpCost f in
      if \<not> truthy (JStr title) then shakeEl ''mExpTitle'' a
      else if \<not> truthy (JStr cost) then shakeEl ''mExpCost'' a
      else
        toast ''success''
          (save (a\<lparr>data := (data a)\<lparr>expenses := expenses (data a) @
             [\<lparr>e_id = JNum (Fin (now ck)), e_title = JStr title, e_category = JStr (mExpCat f),
               e_cost = JNum (num_or (Number (JStr cost)) (Fin 0)),
               e_paid = JNum (num_or (Number (JStr (mExpPaid f))) (Fin 0)),
               e_note = JStr (trim (mExpNote f)), e_created = JStr (iso ck)\<rparr>]\<rparr>\<rparr>)))"

record guest_form =
  mGName :: string
  mGSide :: string
  mGCount :: string
  mGStatus :: string
  mGGift :: string

text \<open>The save handler of \<^verbatim>\<open>App.openGuestModal\<close>.\<close>

definition guest_save :: "clock \<Rightarrow> guest_form \<Rightarrow> app \<Rightarrow> app" where
  "guest_save ck f a =
     (let name = trim (mGName f) in
      if \<not> truthy (JStr name) then shakeEl ''mGName'' a
      else
        toast ''success''
          (save (a\<lparr>data := (data a)\<lparr>guests := guests (data a) @
             [\<lparr>g_id = JNum (Fin (now ck)), g_name = JStr name, g_side = JStr (mGSide f),
               g_count = JNum (num_or (Number (JStr (mGCount f))) (Fin 1)),
               g_status = JStr (mGStatus f),
               g_gift = JNum (num_or (Number (JStr (mGGift f))) (Fin 0)),
               g_created = JStr (iso ck)\<rparr>]\<rparr>\<rparr>)))"

record task_form =
  mTaskTitle :: string
  mTaskCat :: string

text \<open>The save handler of \<^verbatim>\<open>App.openTaskModal\<close>.\<close>

definition task_save :: "clock \<Rightarrow> task_form \<Rightarrow> app \<Rightarrow> app" where
  "task_save ck f a =
     (let title = trim (mTaskTitle f) in
      if \<not> truthy (JStr title) then shakeEl ''mTaskTitle'' a
      else
        toast ''success''
          (save (a\<lparr>data := (data a)\<lparr>tasks := tasks (data a) @
             [\<lparr>t_id = JNum (Fin (now ck)), t_title = JStr title,
               t_category = JStr (trim (mTaskCat f)), t_done = JBool False,
               t_created = JStr (iso ck)\<rparr>]\<rparr>\<rparr>)))"

record settings_form =
  mSGroom :: string
  mSBride :: string
  mSDate :: string
  mSBudget :: string

text \<open>\<^verbatim>\<open>s || d\<close> where both sides are strings.\<close>

definition str_or :: "string \<Rightarrow> string \<Rightarrow> string" where
  "str_or s d = (if truthy (JStr s) then s else d)"

text \<open>
  The save handler of \<^verbatim>\<open>App.openSettings\<close>. The countdown timer that it restarts is
  not modelled.
\<close>

definition settings_save :: "settings_form \<Rightarrow> app \<Rightarrow> app" where
  "settings_save f a =
     (let s = settings (data a);
          s = s\<lparr>groom := JStr (str_or (trim (mSGroom f)) GROOM_DEFAULT)\<rparr>;
          s = s\<lparr>bride := JStr (str_or (trim (mSBride f)) BRIDE_DEFAULT)\<rparr>;
          s = s\<lparr>date := JStr (mSDate f)\<rparr>;
          s = s\<lparr>budget := JNum (num_or (Number (JStr (mSBudget f))) (Fin 0))\<rparr>
      in toast ''success'' (save (a\<lparr>data := (data a)\<lparr>settings := s\<rparr>\<rparr>)))"

subsection \<open>\<^verbatim>\<open>App.esc\<close>\<close>

text \<open>The replacement of one character: the five entities of the source's table.\<close>

definition esc_char :: "char \<Rightarrow> string" where
  "esc_char c =
     (if c = CHR ''&'' then ''&amp;''
      else if c = CHR ''<'' then ''&lt;''
      else if c = CHR ''>'' then ''&gt;''
      else if c = CHR 0x22 then ''&quot;''
      else if c = CHR 0x27 then ''&#039;''
      else [c])"

text \<open>\<^verbatim>\<open>str.replace(/[&<>"']/g, c => map[c])\<close>.\<close>

definition replace_special :: "string \<Rightarrow> string" where
  "replace_special str = concat (map esc_char str)"

text \<open>
  \<^verbatim>\<open>String(v)\<close>. The digits that a number is written with are the runtime's; they are
  the parameter \<open>numstr\<close>.
\<close>

fun ToString :: "(jsnum \<Rightarrow> string) \<Rightarrow> jsval \<Rightarrow> string" where
  "ToString numstr JUndefined = ''undefined''"
| "ToString numstr JNull = ''null''"
| "ToString numstr (JBool b) = (if b then ''true'' else ''false'')"
| "ToString numstr (JNum n) = numstr n"
| "ToString numstr (JStr s) = s"

text \<open>\<^verbatim>\<open>App.esc\<close>, and \<^verbatim>\<open>WeddingApp._escapeHtml\<close> of the optimised engine, which is the same.\<close>

definition esc :: "(jsnum \<Rightarrow> string) \<Rightarrow> jsval \<Rightarrow> string" where
  "esc numstr s = (if \<not> truthy s then [] else replace_special (ToString numstr s))"

section \<open>The two versions of \<^verbatim>\<open>WeddingApp\<close>\<close>

subsection \<open>The document\<close>

text \<open>
  Both versions keep the same document: settings, expenses and guests, without tasks.
  The fields of a guest carry the source's names behind \<open>wg_\<close>, the title of an
  expense is \<open>x_title\<close>.
\<close>

record W_settings =
  total_budget :: jsval
  groom_name :: jsval
  bride_name :: jsval
  wedding_date :: jsval

record W_expense =
  x_title :: jsval
  estimated_cost :: jsval
  paid_amount :: jsval

record W_guest =
  wg_name :: jsval
  wg_side :: jsval
  total_people :: jsval
  wg_status :: jsval
  wg_gift :: jsval

record W_data =
  w_settings :: W_settings
  w_expenses :: "W_expense list"
  w_guests :: "W_guest list"

text \<open>The literal that \<^verbatim>\<open>WeddingApp.data\<close> starts as.\<close>

definition W_defaults :: W_data where
  "W_defaults =
     \<lparr>w_settings = \<lparr>total_budget = JNum (Fin 100000), groom_name = JStr GROOM_DEFAULT,
                    bride_name = JStr BRIDE_DEFAULT, wedding_date = JStr ''2026-06-15''\<rparr>,
      w_expenses = [], w_guests = []\<rparr>"

record W_parsed =
  wp_settings :: "W_settings option"
  wp_expenses :: "W_expense list option"
  wp_guests :: "W_guest list option"

definition W_json_settings :: "W_settings \<Rightarrow> W_settings" where
  "W_json_settings s =
     \<lparr>total_budget = json_leaf (total_budget s), groom_name = json_leaf (groom_name s),
      bride_name = json_leaf (bride_name s), wedding_date = json_leaf (wedding_date s)\<rparr>"

definition W_json_expense :: "W_expense \<Rightarrow> W_expense" where
  "W_json_expense e =
     \<lparr>x_title = json_leaf (x_title e), estimated_cost = json_leaf (estimated_cost e),
      paid_amount = json_leaf (paid_amount e)\<rparr>"

definition W_json_guest :: "W_guest \<Rightarrow> W_guest" where
  "W_json_guest g =
     \<lparr>wg_name = json_leaf (wg_name g), wg_side = json_leaf (wg_side g),
      total_people = json_leaf (total_people g), wg_status = json_leaf (wg_status g),
      wg_gift = json_leaf (wg_gift g)\<rparr>"

text \<open>The value that the text \<^verbatim>\<open>JSON.stringify(this.data)\<close> parses to.\<close>

definition W_stringify :: "W_data \<Rightarrow> W_parsed" where
  "W_stringify d =
     \<lparr>wp_settings = Some (W_json_settings (w_settings d)),
      wp_expenses = Some (map W_json_expense (w_expenses d)),
      wp_guests = Some (map W_json_guest (w_guests d))\<rparr>"

text \<open>The values of the form fields, named by their element ids; both versions use them.\<close>

record W_expense_form =
  exTitle :: string
  exCost :: string
  exPaid :: string

record W_guest_form =
  gName :: string
  gSide :: string
  gCount :: string
  gStatus :: string
  gGift :: string

record W_settings_form =
  sBudget :: string
  sGroom :: string
  sBride :: string
  sDate :: string

text \<open>The list that \<^verbatim>\<open>deleteItem(type, index)\<close> is called for.\<close>

datatype list_kind = Expenses | Guests

subsection \<open>The optimised engine (\<^verbatim>\<open>src/docs/script.js\<close>)\<close>

text \<open>\<^verbatim>\<open>WeddingApp._cachedTotals\<close>.\<close>

record W_totals =
  totalSpent :: jsnum
  w_totalGuests :: jsnum
  totalGifts :: jsnum
  remaining :: jsnum

text \<open>What \<^verbatim>\<open>renderDashboard\<close> last wrote: the amount left and the scale of the bar.\<close>

record W_dashboard =
  shown_left :: jsnum
  shown_percent :: jsnum

record wapp =
  w_data :: W_data
  cachedTotals :: "W_totals option"
  renderQueued :: bool
  w_frame_callbacks :: nat
  w_storage :: "W_parsed stored option"
  w_quota_ok :: bool
  w_redraws :: nat
  w_dashboard :: "W_dashboard option"
  w_notices :: "notice list"

text \<open>The two loops of \<^verbatim>\<open>_computeTotals\<close>, on \<^verbatim>\<open>totalSpent\<close> and on \<^verbatim>\<open>(totalGuests, totalGifts)\<close>.\<close>

fun W_expenses_loop :: "W_expense list \<Rightarrow> jsnum \<Rightarrow> jsnum" where
  "W_expenses_loop [] ts = ts"
| "W_expenses_loop (e # es) ts =
     W_expenses_loop es (jadd ts (num_or (Number (paid_amount e)) (Fin 0)))"

fun W_guests_loop :: "W_guest list \<Rightarrow> jsnum \<times> jsnum \<Rightarrow> jsnum \<times> jsnum" where
  "W_guests_loop [] acc = acc"
| "W_guests_loop (g # gs) (tg, gi) =
     W_guests_loop gs
       (jadd tg (num_or (Number (total_people g)) (Fin 1)),
        jadd gi (num_or (Number (wg_gift g)) (Fin 0)))"

definition W_totals_fresh :: "W_data \<Rightarrow> W_totals" where
  "W_totals_fresh d =
     (let ts = W_expenses_loop (w_expenses d) (Fin 0);
          (tg, gi) = W_guests_loop (w_guests d) (Fin 0, Fin 0)
      in \<lparr>totalSpent = ts, w_totalGuests = tg, totalGifts = gi,
          remaining = jsub (Number (total_budget (w_settings d))) ts\<rparr>)"

text \<open>\<^verbatim>\<open>WeddingApp._computeTotals\<close>.\<close>

definition W_computeTotals :: "wapp \<Rightarrow> W_totals \<times> wapp" where
  "W_computeTotals a =
     (case cachedTotals a of
        Some t \<Rightarrow> (t, a)
      | None \<Rightarrow> (let t = W_totals_fresh (w_data a) in (t, a\<lparr>cachedTotals := Some t\<rparr>)))"

text \<open>The scale of the progress bar in \<^verbatim>\<open>renderDashboard\<close>.\<close>

definition W_percent :: "W_settings \<Rightarrow> W_totals \<Rightarrow> jsnum" where
  "W_percent s t =
     (if jgt (Number (total_budget s)) (Fin 0)
      then Math_min (jdiv (totalSpent t) (Number (total_budget s))) (Fin 1)
      else Fin 0)"

text \<open>\<^verbatim>\<open>WeddingApp.renderDashboard\<close>.\<close>

definition W_renderDashboard :: "wapp \<Rightarrow> wapp" where
  "W_renderDashboard a =
     (let s = w_settings (w_data a);
          (t, a1) = W_computeTotals a
      in a1\<lparr>w_dashboard := Some \<lparr>shown_left = remaining t, shown_percent = W_percent s t\<rparr>,
            w_redraws := w_redraws a1 + 1\<rparr>)"

text \<open>\<^verbatim>\<open>WeddingApp._scheduleRender\<close>.\<close>

definition W_scheduleRender :: "wapp \<Rightarrow> wapp" where
  "W_scheduleRender a =
     (if renderQueued a then a
      else a\<lparr>renderQueued := True, w_frame_callbacks := w_frame_callbacks a + 1\<rparr>)"

text \<open>\<^verbatim>\<open>WeddingApp.saveData\<close>: a failed write is logged only.\<close>

definition W_saveData :: "wapp \<Rightarrow> wapp" where
  "W_saveData a =
     (let a1 = (if w_quota_ok a then a\<lparr>w_storage := Some (Json (W_stringify (w_data a)))\<rparr> else a)
      in W_scheduleRender (a1\<lparr>cachedTotals := None\<rparr>))"

text \<open>\<^verbatim>\<open>{ ...this.data.settings, ...parsed.settings }\<close>.\<close>

definition W_spread_settings :: "W_settings \<Rightarrow> W_settings option \<Rightarrow> W_settings" where
  "W_spread_settings cur ps =
     (case ps of
        None \<Rightarrow> cur
      | Some s \<Rightarrow>
          \<lparr>total_budget = spread_leaf (total_budget cur) (total_budget s),
           groom_name = spread_leaf (groom_name cur) (groom_name s),
           bride_name = spread_leaf (bride_name cur) (bride_name s),
           wedding_date = spread_leaf (wedding_date cur) (wedding_date s)\<rparr>)"

text \<open>
  \<^verbatim>\<open>WeddingApp.loadData\<close>: without a stored text the current document is saved; an
  exception is logged and the document stays; a parsed document is merged.
\<close>

definition W_loadData :: "wapp \<Rightarrow> wapp" where
  "W_loadData a =
     (case w_storage a of
        None \<Rightarrow> W_saveData a
      | Some Blank \<Rightarrow> W_saveData a
      | Some Garbage \<Rightarrow> a
      | Some (Json parsed) \<Rightarrow>
          a\<lparr>w_data :=
              \<lparr>w_settings = W_spread_settings (w_settings (w_data a)) (wp_settings parsed),
               w_expenses = (case wp_expenses parsed of None \<Rightarrow> [] | Some xs \<Rightarrow> xs),
               w_guests = (case wp_guests parsed of None \<Rightarrow> [] | Some xs \<Rightarrow> xs)\<rparr>\<rparr>)"

definition W_mutate :: "(W_data \<Rightarrow> W_data) \<Rightarrow> wapp \<Rightarrow> wapp" where
  "W_mutate f a = W_saveData (a\<lparr>w_data := f (w_data a)\<rparr>)"

definition W_mutations :: "(W_data \<Rightarrow> W_data) list \<Rightarrow> wapp \<Rightarrow> wapp" where
  "W_mutations fs a = foldl (\<lambda>a f. W_mutate f a) a fs"

text \<open>The callback of \<^verbatim>\<open>_scheduleRender\<close>, with the mutations made while it runs.\<close>

definition W_frame_callback :: "(W_data \<Rightarrow> W_data) list \<Rightarrow> wapp \<Rightarrow> wapp" where
  "W_frame_callback during a = W_mutations during (W_renderDashboard (a\<lparr>renderQueued := False\<rparr>))"

fun W_run_callbacks :: "nat \<Rightarrow> (W_data \<Rightarrow> W_data) list \<Rightarrow> wapp \<Rightarrow> wapp" where
  "W_run_callbacks 0 during a = a"
| "W_run_callbacks (Suc n) during a = W_run_callbacks n during (W_frame_callback during a)"

definition W_animation_frame :: "(W_data \<Rightarrow> W_data) list \<Rightarrow> wapp \<Rightarrow> wapp" where
  "W_animation_frame during a =
     W_run_callbacks (w_frame_callbacks a) during (a\<lparr>w_frame_callbacks := 0\<rparr>)"

text \<open>\<^verbatim>\<open>WeddingApp._shakeInput\<close>.\<close>

definition W_shakeInput :: "string \<Rightarrow> wapp \<Rightarrow> wapp" where
  "W_shakeInput el a = a\<lparr>w_notices := w_notices a @ [Shake el]\<rparr>"

text \<open>
  The save handlers of the three modals. The list renderers that they call after
  \<^verbatim>\<open>saveData\<close> write to the page only and are not modelled.
\<close>

definition W_expense_save :: "W_expense_form \<Rightarrow> wapp \<Rightarrow> wapp" where
  "W_expense_save f a =
     (let title = trim (exTitle f); cost = exCost f; paid = exPaid f in
      if \<not> truthy (JStr title) \<or> \<not> truthy (JStr cost)
      then W_shakeInput (if \<not> truthy (JStr title) then ''exTitle'' else ''exCost'') a
      else W_saveData (a\<lparr>w_data := (w_data a)\<lparr>w_expenses := w_expenses (w_data a) @
             [\<lparr>x_title = JStr title, estimated_cost = JNum (Number (JStr cost)),
               paid_amount = JNum (num_or (Number (JStr paid)) (Fin 0))\<rparr>]\<rparr>\<rparr>))"

definition W_guest_save :: "W_guest_form \<Rightarrow> wapp \<Rightarrow> wapp" where
  "W_guest_save f a =
     (let name = trim (gName f) in
      if \<not> truthy (JStr name) then W_shakeInput ''gName'' a
      else W_saveData (a\<lparr>w_data := (w_data a)\<lparr>w_guests := w_guests (w_data a) @
             [\<lparr>wg_name = JStr name, wg_side = JStr (gSide f),
               total_people = JNum (num_or (Number (JStr (gCount f))) (Fin 1)),
               wg_status = JStr (gStatus f),
               wg_gift = JNum (num_or (Number (JStr (gGift f))) (Fin 0))\<rparr>]\<rparr>\<rparr>))"

definition W_settings_save :: "W_settings_form \<Rightarrow> wapp \<Rightarrow> wapp" where
  "W_settings_save f a =
     (let s = w_settings (w_data a);
          s = s\<lparr>total_budget := JNum (num_or (Number (JStr (sBudget f))) (Fin 0))\<rparr>;
          s = s\<lparr>groom_name := JStr (str_or (trim (sGroom f)) GROOM_DEFAULT)\<rparr>;
          s = s\<lparr>bride_name := JStr (str_or (trim (sBride f)) BRIDE_DEFAULT)\<rparr>;
          s = s\<lparr>wedding_date := JStr (sDate f)\<rparr>
      in W_saveData (a\<lparr>w_data := (w_data a)\<lparr>w_settings := s\<rparr>\<rparr>))"

text \<open>\<^verbatim>\<open>WeddingApp.deleteItem\<close>; \<open>ok\<close> is the answer to \<^verbatim>\<open>confirm\<close>.\<close>

definition W_deleteItem :: "bool \<Rightarrow> list_kind \<Rightarrow> jsnum \<Rightarrow> wapp \<Rightarrow> wapp" where
  "W_deleteItem ok ty index a =
     (if \<not> ok then a
      else W_saveData
        (a\<lparr>w_data :=
            (case ty of
               Expenses \<Rightarrow> (w_data a)\<lparr>w_expenses := splice1 index (w_expenses (w_data a))\<rparr>
             | Guests \<Rightarrow> (w_data a)\<lparr>w_guests := splice1 index (w_guests (w_data a))\<rparr>)\<rparr>))"

subsection \<open>The first version (\<^verbatim>\<open>src/unnamed/part_000\<close>)\<close>

text \<open>What \<^verbatim>\<open>renderDashboard\<close> computes and writes; \<open>p_width\<close> is the number before the \<^verbatim>\<open>%\<close>.\<close>

record P_dashboard =
  p_totalSpent :: jsnum
  p_totalGuests :: jsnum
  p_totalGifts :: jsnum
  p_remaining :: jsnum
  p_percent :: jsnum
  p_width :: jsnum

text \<open>The three \<^verbatim>\<open>reduce\<close> calls, each from the initial value \<open>0\<close>.\<close>

fun P_sum_paid :: "W_expense list \<Rightarrow> jsnum \<Rightarrow> jsnum" where
  "P_sum_paid [] acc = acc"
| "P_sum_paid (cur # rest) acc =
     P_sum_paid rest (jadd acc (Number (js_or (paid_amount cur) (JNum (Fin 0)))))"

fun P_sum_people :: "W_guest list \<Rightarrow> jsnum \<Rightarrow> jsnum" where
  "P_sum_people [] acc = acc"
| "P_sum_people (cur # rest) acc =
     P_sum_people rest (jadd acc (Number (js_or (total_people cur) (JNum (Fin 1)))))"

fun P_sum_gift :: "W_guest list \<Rightarrow> jsnum \<Rightarrow> jsnum" where
  "P_sum_gift [] acc = acc"
| "P_sum_gift (cur # rest) acc =
     P_sum_gift rest (jadd acc (Number (js_or (wg_gift cur) (JNum (Fin 0)))))"

text \<open>The calculations of \<^verbatim>\<open>WeddingApp.renderDashboard\<close>: no test of the budget comes before the division.\<close>

definition P_dashboard_of :: "W_data \<Rightarrow> P_dashboard" where
  "P_dashboard_of d =
     (let s = w_settings d;
          ts = P_sum_paid (w_expenses d) (Fin 0);
          tg = P_sum_people (w_guests d) (Fin 0);
          gi = P_sum_gift (w_guests d) (Fin 0);
          left = jsub (Number (total_budget s)) ts;
          percent = jmul (jdiv ts (Number (total_budget s))) (Fin 100)
      in \<lparr>p_totalSpent = ts, p_totalGuests = tg, p_totalGifts = gi, p_remaining = left,
          p_percent = percent, p_width = Math_min percent (Fin 100)\<rparr>)"

record papp =
  p_data :: W_data
  p_storage :: "W_parsed stored option"
  p_quota_ok :: bool
  p_dashboard :: "P_dashboard option"
  p_notices :: "notice list"

definition P_renderDashboard :: "papp \<Rightarrow> papp" where
  "P_renderDashboard a = a\<lparr>p_dashboard := Some (P_dashboard_of (p_data a))\<rparr>"

text \<open>\<^verbatim>\<open>WeddingApp.saveData\<close>: nothing catches the exception of \<^verbatim>\<open>setItem\<close>.\<close>

definition P_saveData :: "papp \<Rightarrow> papp outcome" where
  "P_saveData a =
     (if p_quota_ok a
      then Returned (P_renderDashboard (a\<lparr>p_storage := Some (Json (W_stringify (p_data a)))\<rparr>))
      else Threw a)"

text \<open>The save handler of \<^verbatim>\<open>openExpenseModal\<close>: the values are stored as the strings they are.\<close>

definition P_expense_save :: "W_expense_form \<Rightarrow> papp \<Rightarrow> papp outcome" where
  "P_expense_save f a =
     (let title = exTitle f; cost = exCost f; paid = exPaid f in
      if \<not> truthy (JStr title) \<or> \<not> truthy (JStr cost)
      then Returned (a\<lparr>p_notices := p_notices a @ [Alert]\<rparr>)
      else P_saveData (a\<lparr>p_data := (p_data a)\<lparr>w_expenses := w_expenses (p_data a) @
             [\<lparr>x_title = JStr title, estimated_cost = JStr cost,
               paid_amount = js_or (JStr paid) (JNum (Fin 0))\<rparr>]\<rparr>\<rparr>))"

text \<open>The save handler of \<^verbatim>\<open>openGuestModal\<close>: the push is its first statement.\<close>

definition P_guest_save :: "W_guest_form \<Rightarrow> papp \<Rightarrow> papp outcome" where
  "P_guest_save f a =
     P_saveData (a\<lparr>p_data := (p_data a)\<lparr>w_guests := w_guests (p_data a) @
       [\<lparr>wg_name = JStr (gName f), wg_side = JStr (gSide f),
         total_people = JStr (gCount f), wg_status = JStr (gStatus f),
         wg_gift = js_or (JStr (gGift f)) (JNum (Fin 0))\<rparr>]\<rparr>\<rparr>)"

text \<open>The save handler of \<^verbatim>\<open>openSettingsModal\<close>.\<close>

definition P_settings_save :: "W_settings_form \<Rightarrow> papp \<Rightarrow> papp outcome" where
  "P_settings_save f a =
     (let s = w_settings (p_data a);
          s = s\<lparr>total_budget := JStr (sBudget f)\<rparr>;
          s = s\<lparr>groom_name := JStr (sGroom f)\<rparr>;
          s = s\<lparr>bride_name := JStr (sBride f)\<rparr>;
          s = s\<lparr>wedding_date := JStr (sDate f)\<rparr>
      in P_saveData (a\<lparr>p_data := (p_data a)\<lparr>w_settings := s\<rparr>\<rparr>))"

text \<open>\<^verbatim>\<open>WeddingApp.deleteItem\<close>.\<close>

definition P_deleteItem :: "bool \<Rightarrow> list_kind \<Rightarrow> jsnum \<Rightarrow> papp \<Rightarrow> papp outcome" where
  "P_deleteItem ok ty index a =
     (if ok
      then P_saveData
        (a\<lparr>p_data :=
            (case ty of
               Expenses \<Rightarrow> (p_data a)\<lparr>w_expenses := splice1 index (w_expenses (p_data a))\<rparr>
             | Guests \<Rightarrow> (p_data a)\<lparr>w_guests := splice1 index (w_guests (p_data a))\<rparr>)\<rparr>)
      else Returned a)"

section \<open>The properties, as the specification words them\<close>

text \<open>\<open>clamp(x, lo, hi)\<close>.\<close>

definition clamp :: "rat \<Rightarrow> rat \<Rightarrow> rat \<Rightarrow> rat" where
  "clamp x lo hi = max lo (min x hi)"

text \<open>
  The paid fraction as the specification defines it: \<open>clamp(totalPaid / budget, 0, 1)\<close>,
  and \<open>0\<close> when the budget is \<open>0\<close>.
\<close>

definition paidFraction_spec :: "rat \<Rightarrow> rat \<Rightarrow> rat" where
  "paidFraction_spec paid_total b = (if b = 0 then 0 else clamp (paid_total / b) 0 1)"



text \<open>The sum of a list of numbers, from \<open>0\<close>.\<close>

definition jsum :: "jsnum list \<Rightarrow> jsnum" where
  "jsum ns = foldr jadd ns (Fin 0)"

text \<open>A leaf that \<^verbatim>\<open>JSON\<close> carries as it is: when it is a number, it is finite.\<close>

definition json_safe :: "jsval \<Rightarrow> bool" where
  "json_safe v = (json_leaf v = v)"

text \<open>The five entities that \<^verbatim>\<open>esc\<close> writes.\<close>

definition entities :: "string list" where
  "entities = [''&amp;'', ''&lt;'', ''&gt;'', ''&quot;'', ''&#039;'']"

text \<open>Every \<^verbatim>\<open>&\<close> of a string is the first character of an entity.\<close>

fun amp_starts_entity :: "string \<Rightarrow> bool" where
  "amp_starts_entity [] = True"
| "amp_starts_entity (c # cs) =
     ((if c = CHR ''&'' then \<exists>e \<in> set entities. prefix e (c # cs) else True) \<and> amp_starts_entity cs)"

subsection \<open>Documents that the storage adapter gives back\<close>

text \<open>A property that is there.\<close>

definition present :: "jsval \<Rightarrow> bool" where
  "present v = (v \<noteq> JUndefined)"

text \<open>
  A document that the storage adapter gives back as it is: every number in it is finite,
  and \<^verbatim>\<open>onboarded\<close> and the five settings are there. A missing property of an expense,
  a guest or a task stays missing.
\<close>

definition expense_safe :: "expense \<Rightarrow> bool" where
  "expense_safe e =
     (json_safe (e_id e) \<and> json_safe (e_title e) \<and> json_safe (e_category e) \<and> json_safe (e_cost e)
      \<and> json_safe (e_paid e) \<and> json_safe (e_note e) \<and> json_safe (e_created e))"

definition guest_safe :: "guest \<Rightarrow> bool" where
  "guest_safe g =
     (json_safe (g_id g) \<and> json_safe (g_name g) \<and> json_safe (g_side g) \<and> json_safe (g_count g)
      \<and> json_safe (g_status g) \<and> json_safe (g_gift g) \<and> json_safe (g_created g))"

definition task_safe :: "task \<Rightarrow> bool" where
  "task_safe t =
     (json_safe (t_id t) \<and> json_safe (t_title t) \<and> json_safe (t_category t) \<and> json_safe (t_done t)
      \<and> json_safe (t_created t))"

definition settings_safe :: "app_settings \<Rightarrow> bool" where
  "settings_safe s =
     (json_safe (groom s) \<and> present (groom s) \<and> json_safe (bride s) \<and> present (bride s)
      \<and> json_safe (date s) \<and> present (date s) \<and> json_safe (budget s) \<and> present (budget s)
      \<and> json_safe (guest_estimate s) \<and> present (guest_estimate s))"

definition storable :: "app_data \<Rightarrow> bool" where
  "storable d =
     (json_safe (onboarded d) \<and> present (onboarded d) \<and> settings_safe (settings d)
      \<and> list_all expense_safe (expenses d) \<and> list_all guest_safe (guests d)
      \<and> list_all task_safe (tasks d))"

definition W_expense_safe :: "W_expense \<Rightarrow> bool" where
  "W_expense_safe e = (json_safe (x_title e) \<and> json_safe (estimated_cost e) \<and> json_safe (paid_amount e))"

definition W_guest_safe :: "W_guest \<Rightarrow> bool" where
  "W_guest_safe g =
     (json_safe (wg_name g) \<and> json_safe (wg_side g) \<and> json_safe (total_people g)
      \<and> json_safe (wg_status g) \<and> json_safe (wg_gift g))"

definition W_settings_safe :: "W_settings \<Rightarrow> bool" where
  "W_settings_safe s =
     (json_safe (total_budget s) \<and> present (total_budget s)
      \<and> json_safe (groom_name s) \<and> present (groom_name s)
      \<and> json_safe (bride_name s) \<and> present (bride_name s)
      \<and> json_safe (wedding_date s) \<and> present (wedding_date s))"

definition W_storable :: "W_data \<Rightarrow> bool" where
  "W_storable d =
     (W_settings_safe (w_settings d) \<and> list_all W_expense_safe (w_expenses d)
      \<and> list_all W_guest_safe (w_guests d))"

section \<open>Sample documents, states and forms\<close>

text \<open>
  The specification's example: a budget of \<open>100000\<close> and one expense that costs \<open>50000\<close>,
  of which \<open>20000\<close> are paid.
\<close>

definition expense_50000_20000 :: expense where
  "expense_50000_20000 =
     \<lparr>e_id = JNum (Fin 1), e_title = JStr ''Hall'', e_category = JStr ''Hall'',
      e_cost = JNum (Fin 50000), e_paid = JNum (Fin 20000), e_note = JStr [], e_created = JStr []\<rparr>"

definition doc_100000 :: app_data where
  "doc_100000 =
     defaults\<lparr>settings := (settings defaults)\<lparr>budget := JNum (Fin 100000)\<rparr>,
              expenses := [expense_50000_20000]\<rparr>"

text \<open>The same in the first version, which stores the strings of the form.\<close>

definition wdoc_100000 :: W_data where
  "wdoc_100000 =
     W_defaults\<lparr>w_expenses :=
       [\<lparr>x_title = JStr ''Hall'', estimated_cost = JStr ''50000'', paid_amount = JStr ''20000''\<rparr>]\<rparr>"

text \<open>A budget of \<open>100\<close> and one expense with \<open>-50\<close> in its paid field.\<close>

definition doc_negative_paid :: app_data where
  "doc_negative_paid =
     defaults\<lparr>settings := (settings defaults)\<lparr>budget := JNum (Fin 100)\<rparr>,
              expenses := [expense_50000_20000\<lparr>e_paid := JNum (Fin (- 50))\<rparr>]\<rparr>"

text \<open>Records with missing and with non-numeric fields.\<close>

definition guest_without_count :: guest where
  "guest_without_count =
     \<lparr>g_id = JNum (Fin 7), g_name = JStr ''Dana'', g_side = JUndefined, g_count = JUndefined,
      g_status = JStr STATUS_CONFIRMED, g_gift = JStr ''soon'', g_created = JUndefined\<rparr>"

definition expense_without_cost :: expense where
  "expense_without_cost =
     \<lparr>e_id = JNum (Fin 3), e_title = JStr ''Band'', e_category = JUndefined, e_cost = JUndefined,
      e_paid = JStr ''soon'', e_note = JUndefined, e_created = JUndefined\<rparr>"

definition W_expense_unpaid :: W_expense where
  "W_expense_unpaid = \<lparr>x_title = JStr ''Band'', estimated_cost = JNum (Fin 900), paid_amount = JUndefined\<rparr>"

definition W_guest_without_count :: W_guest where
  "W_guest_without_count =
     \<lparr>wg_name = JStr ''Dana'', wg_side = JUndefined, total_people = JStr ''soon'',
      wg_status = JUndefined, wg_gift = JUndefined\<rparr>"

text \<open>
  The specification's example: parties of \<open>2\<close>, \<open>1\<close> and \<open>3\<close>, confirmed, not yet
  confirmed and declined.
\<close>

definition doc_three_guests :: app_data where
  "doc_three_guests =
     defaults\<lparr>guests :=
       [guest_without_count\<lparr>g_count := JNum (Fin 2), g_status := JStr STATUS_CONFIRMED\<rparr>,
        guest_without_count\<lparr>g_count := JNum (Fin 1), g_status := JStr STATUS_PENDING\<rparr>,
        guest_without_count\<lparr>g_count := JNum (Fin 3), g_status := JStr STATUS_DECLINED\<rparr>]\<rparr>"

text \<open>A text with all five special characters.\<close>

definition sample_text :: string where
  "sample_text = ''<b title='' @ [CHR 0x22] @ ''x'' @ [CHR 0x22] @ ''>Tom & Jerry'' @ [CHR 0x27] @ ''s</b>''"

text \<open>The states of the three variants at their start, with nothing stored.\<close>

definition app0 :: app where
  "app0 = \<lparr>data = defaults, cache = None, raf = False, frame_callbacks = 0, storage = None,
           quota_ok = True, redraws = 0, notices = []\<rparr>"

definition wapp0 :: wapp where
  "wapp0 = \<lparr>w_data = W_defaults, cachedTotals = None, renderQueued = False, w_frame_callbacks = 0,
            w_storage = None, w_quota_ok = True, w_redraws = 0, w_dashboard = None, w_notices = []\<rparr>"

definition papp0 :: papp where
  "papp0 = \<lparr>p_data = W_defaults, p_storage = None, p_quota_ok = True, p_dashboard = None,
            p_notices = []\<rparr>"

text \<open>Documents with two expenses.\<close>

definition app_two :: app where
  "app_two = app0\<lparr>data := defaults\<lparr>expenses := [expense_50000_20000, expense_without_cost]\<rparr>\<rparr>"

definition W_expense_hall :: W_expense where
  "W_expense_hall = \<lparr>x_title = JStr ''Hall'', estimated_cost = JNum (Fin 50000), paid_amount = JNum (Fin 20000)\<rparr>"

definition W_data_two :: W_data where
  "W_data_two = W_defaults\<lparr>w_expenses := [W_expense_hall, W_expense_unpaid]\<rparr>"

text \<open>A guest form whose name is left empty.\<close>

definition guest_form_no_name :: W_guest_form where
  "guest_form_no_name = \<lparr>gName = [], gSide = ''groom'', gCount = ''1'', gStatus = ''pending'', gGift = []\<rparr>"

text \<open>A settings form whose budget is left empty, and one with a text in it.\<close>

definition settings_form_no_budget :: settings_form where
  "settings_form_no_budget = \<lparr>mSGroom = ''Adam'', mSBride = ''Eve'', mSDate = ''2027-01-01'', mSBudget = []\<rparr>"

definition W_settings_form_bad_budget :: W_settings_form where
  "W_settings_form_bad_budget = \<lparr>sBudget = ''lots'', sGroom = ''Adam'', sBride = ''Eve'', sDate = ''2027-01-01''\<rparr>"

text \<open>Two mutations of a document, and one made while a frame's callback runs.\<close>

definition add_hall :: "app_data \<Rightarrow> app_data" where
  "add_hall d = d\<lparr>expenses := expenses d @ [expense_50000_20000]\<rparr>"

definition add_dana :: "app_data \<Rightarrow> app_data" where
  "add_dana d = d\<lparr>guests := guests d @ [guest_without_count]\<rparr>"

definition W_add_hall :: "W_data \<Rightarrow> W_data" where
  "W_add_hall d = d\<lparr>w_expenses := w_expenses d @ [W_expense_hall]\<rparr>"

definition W_add_dana :: "W_data \<Rightarrow> W_data" where
  "W_add_dana d = d\<lparr>w_guests := w_guests d @ [W_guest_without_count]\<rparr>"

section \<open>Evaluating the number parser\<close>

lemmas parse_defs = StringToNumber_def trim_def is_ws_def signed_decimal_def unsigned_decimal_def
  is_digit_def exponent_part_def pow10_def dec_val_def nondecimal_def hex_val_def

section \<open>Arithmetic of the numbers\<close>

lemma jadd_commute: "jadd a b = jadd b a"
  by (cases a; cases b) simp_all

lemma jadd_assoc: "jadd (jadd a b) c = jadd a (jadd b c)"
  by (cases a; cases b; cases c) simp_all

lemma jadd_left_commute: "jadd a (jadd b c) = jadd b (jadd a c)"
  by (cases a; cases b; cases c) simp_all

lemma jadd_zero_left: "jadd (Fin 0) a = a"
  by (cases a) simp_all

lemma jadd_zero_right: "jadd a (Fin 0) = a"
  by (cases a) simp_all

lemma jgt_Fin: "jgt (Fin a) (Fin b) \<longleftrightarrow> b < a"
  by (simp add: jgt_def)



section \<open>The loops of the aggregation engine are sums\<close>

lemma jsum_Nil: "jsum [] = Fin 0"
  by (simp add: jsum_def)

lemma jsum_Cons: "jsum (n # ns) = jadd n (jsum ns)"
  by (simp add: jsum_def)

lemma expenses_loop_sums:
  "expenses_loop es (tc, tp) =
     (jadd tc (jsum (map (\<lambda>e. num_or (Number (e_cost e)) (Fin 0)) es)),
      jadd tp (jsum (map (\<lambda>e. num_or (Number (e_paid e)) (Fin 0)) es)))"
proof (induction es arbitrary: tc tp)
  case Nil
  show ?case by (simp add: jsum_Nil jadd_zero_right)
next
  case (Cons e es)
  show ?case by (simp add: Cons.IH jsum_Cons jadd_assoc)
qed

lemma guests_loop_partition:
  assumes "jadd (jadd co pe) de = tg"
      and "guests_loop gs (tg, co, pe, de, gi) = (tg', co', pe', de', gi')"
  shows "jadd (jadd co' pe') de' = tg'"
  using assms
proof (induction gs arbitrary: tg co pe de gi)
  case Nil
  then show ?case by simp
next
  case (Cons g gs)
  let ?cnt = "num_or (Number (g_count g)) (Fin 1)"
  let ?gi = "jadd gi (num_or (Number (g_gift g)) (Fin 0))"
  consider (c) "g_status g = JStr STATUS_CONFIRMED"
    | (d) "g_status g \<noteq> JStr STATUS_CONFIRMED" "g_status g = JStr STATUS_DECLINED"
    | (p) "g_status g \<noteq> JStr STATUS_CONFIRMED" "g_status g \<noteq> JStr STATUS_DECLINED"
    by blast
  then show ?case
  proof cases
    case c
    with Cons.prems(2) have run: "guests_loop gs (jadd tg ?cnt, jadd co ?cnt, pe, de, ?gi) = (tg', co', pe', de', gi')"
      by (simp add: Let_def)
    have "jadd (jadd (jadd co ?cnt) pe) de = jadd tg ?cnt"
      using Cons.prems(1) by (metis jadd_assoc jadd_commute)
    then show ?thesis using Cons.IH run by blast
  next
    case d
    with Cons.prems(2) have run: "guests_loop gs (jadd tg ?cnt, co, pe, jadd de ?cnt, ?gi) = (tg', co', pe', de', gi')"
      by (simp add: Let_def)
    have "jadd (jadd co pe) (jadd de ?cnt) = jadd tg ?cnt"
      using Cons.prems(1) by (metis jadd_assoc)
    then show ?thesis using Cons.IH run by blast
  next
    case p
    with Cons.prems(2) have run: "guests_loop gs (jadd tg ?cnt, co, jadd pe ?cnt, de, ?gi) = (tg', co', pe', de', gi')"
      by (simp add: Let_def)
    have "jadd (jadd co (jadd pe ?cnt)) de = jadd tg ?cnt"
      using Cons.prems(1) by (metis jadd_assoc jadd_commute)
    then show ?thesis using Cons.IH run by blast
  qed
qed

lemma guests_loop_buckets:
  "guests_loop gs (tg, co, pe, de, gi) =
     (jadd tg (jsum (map (\<lambda>g. num_or (Number (g_count g)) (Fin 1)) gs)),
      jadd co (jsum (map (\<lambda>g. num_or (Number (g_count g)) (Fin 1))
                 (filter (\<lambda>g. g_status g = JStr STATUS_CONFIRMED) gs))),
      jadd pe (jsum (map (\<lambda>g. num_or (Number (g_count g)) (Fin 1))
                 (filter (\<lambda>g. g_status g \<noteq> JStr STATUS_CONFIRMED \<and> g_status g \<noteq> JStr STATUS_DECLINED) gs))),
      jadd de (jsum (map (\<lambda>g. num_or (Number (g_count g)) (Fin 1))
                 (filter (\<lambda>g. g_status g \<noteq> JStr STATUS_CONFIRMED \<and> g_status g = JStr STATUS_DECLINED) gs))),
      jadd gi (jsum (map (\<lambda>g. num_or (Number (g_gift g)) (Fin 0)) gs)))"
proof (induction gs arbitrary: tg co pe de gi)
  case Nil
  show ?case by (simp add: jsum_Nil jadd_zero_right)
next
  case (Cons g gs)
  show ?case by (simp add: Cons.IH jsum_Cons jadd_assoc Let_def)
qed

lemma compute_fresh_guests:
  "guests_loop (guests d) (Fin 0, Fin 0, Fin 0, Fin 0, Fin 0) =
     (totalGuests (compute_fresh d), confirmed (compute_fresh d), pending (compute_fresh d),
      declined (compute_fresh d), gifts (compute_fresh d))"
  by (simp add: compute_fresh_def Let_def split: prod.splits)

lemma compute_fresh_expenses:
  "expenses_loop (expenses d) (Fin 0, Fin 0) = (totalCost (compute_fresh d), totalPaid (compute_fresh d))"
  by (simp add: compute_fresh_def Let_def split: prod.splits)

text \<open>
  Without a cached snapshot \<^verbatim>\<open>compute\<close> returns the snapshot of the document. After
  \<^verbatim>\<open>save\<close>, which every mutation ends with, the cache is empty.
\<close>

lemma compute_uncached: "cache a = None \<Longrightarrow> fst (compute a) = compute_fresh (data a)"
  by (simp add: compute_def Let_def)

lemma compute_after_save:
  "cache (save a) = None \<and> fst (compute (save a)) = compute_fresh (data a)
   \<and> cache (snd (compute (save a))) = Some (compute_fresh (data a))"
  by (simp add: save_def scheduleRender_def toast_def compute_def Let_def)

section \<open>Guest counts\<close>

text \<open>
  Claim C4. The total guest count of the snapshot is the sum of the party sizes, a party
  size being the \<^verbatim>\<open>cnt\<close> of the loop, \<^verbatim>\<open>Number(count) || 1\<close>. The confirmed, pending and
  declined counts add up to that total, because each guest is counted in one bucket:
  confirmed holds the guests whose status is the confirmed string, declined those whose
  status is the declined string, pending every other guest, whatever its status is.
  Equality of two numbers that are NaN holds here; in the model the sums are exact.
\<close>

theorem guest_status_partition:
  "totalGuests (compute_fresh d) = jsum (map (\<lambda>g. num_or (Number (g_count g)) (Fin 1)) (guests d))
   \<and> jadd (jadd (confirmed (compute_fresh d)) (pending (compute_fresh d))) (declined (compute_fresh d))
       = totalGuests (compute_fresh d)
   \<and> confirmed (compute_fresh d) =
       jsum (map (\<lambda>g. num_or (Number (g_count g)) (Fin 1))
         (filter (\<lambda>g. g_status g = JStr STATUS_CONFIRMED) (guests d)))
   \<and> declined (compute_fresh d) =
       jsum (map (\<lambda>g. num_or (Number (g_count g)) (Fin 1))
         (filter (\<lambda>g. g_status g \<noteq> JStr STATUS_CONFIRMED \<and> g_status g = JStr STATUS_DECLINED) (guests d)))
   \<and> pending (compute_fresh d) =
       jsum (map (\<lambda>g. num_or (Number (g_count g)) (Fin 1))
         (filter (\<lambda>g. g_status g \<noteq> JStr STATUS_CONFIRMED \<and> g_status g \<noteq> JStr STATUS_DECLINED) (guests d)))"
proof -
  have run: "guests_loop (guests d) (Fin 0, Fin 0, Fin 0, Fin 0, Fin 0) =
     (totalGuests (compute_fresh d), confirmed (compute_fresh d), pending (compute_fresh d),
      declined (compute_fresh d), gifts (compute_fresh d))"
    by (rule compute_fresh_guests)
  have part: "jadd (jadd (confirmed (compute_fresh d)) (pending (compute_fresh d))) (declined (compute_fresh d))
       = totalGuests (compute_fresh d)"
    by (rule guests_loop_partition [OF _ run]) simp
  from run show ?thesis
    unfolding guests_loop_buckets using part by (simp add: jadd_zero_left)
qed

text \<open>The specification's example of three guests.\<close>

lemma guest_counts_example:
  "totalGuests (compute_fresh doc_three_guests) = Fin 6
   \<and> confirmed (compute_fresh doc_three_guests) = Fin 2
   \<and> pending (compute_fresh doc_three_guests) = Fin 1
   \<and> declined (compute_fresh doc_three_guests) = Fin 3"
proof -
  have "guests_loop (guests doc_three_guests) (Fin 0, Fin 0, Fin 0, Fin 0, Fin 0)
          = (Fin 6, Fin 2, Fin 1, Fin 3, Fin 0)"
    by (simp add: doc_three_guests_def guest_without_count_def Let_def STATUS_CONFIRMED_def
        STATUS_DECLINED_def STATUS_PENDING_def num_or_def num_truthy_def parse_defs)
  then show ?thesis
    using compute_fresh_guests [of doc_three_guests] by simp
qed

section \<open>The progress percentage\<close>




section \<open>Budget and paid fraction\<close>

lemma compute_fresh_budget:
  "budgetLeft (compute_fresh d) = jsub (Number (budget (settings d))) (totalPaid (compute_fresh d))
   \<and> budgetPercent (compute_fresh d) =
       (if jgt (Number (budget (settings d))) (Fin 0)
        then Math_min (jdiv (totalPaid (compute_fresh d)) (Number (budget (settings d)))) (Fin 1)
        else Fin 0)"
  by (simp add: compute_fresh_def Let_def split: prod.splits)

lemma P_dashboard_budget:
  "p_remaining (P_dashboard_of w) = jsub (Number (total_budget (w_settings w))) (p_totalSpent (P_dashboard_of w))
   \<and> p_width (P_dashboard_of w) =
       Math_min (jmul (jdiv (p_totalSpent (P_dashboard_of w)) (Number (total_budget (w_settings w)))) (Fin 100)) (Fin 100)"
  by (simp add: P_dashboard_of_def Let_def)

lemma Math_min_Fin: "Math_min (Fin a) (Fin b) = Fin (min a b)"
  by (simp add: Math_min_def min_def)

lemma paidFraction_spec_nonneg:
  "0 \<le> p \<Longrightarrow> paidFraction_spec p b = (if 0 < b then min (p / b) 1 else 0)"
  by (auto simp: paidFraction_spec_def clamp_def max_def min_def divide_le_0_iff zero_le_divide_iff not_less)

text \<open>
  Claim C1, amended. With a finite budget \<open>b\<close> and a finite total paid \<open>p\<close>, the snapshot
  of \<^verbatim>\<open>App.compute\<close> has \<open>budgetLeft = b - p\<close>, and its paid fraction is
  \<open>min (p / b) 1\<close> when the budget is positive and \<open>0\<close> otherwise; for a budget of \<open>0\<close> it
  is \<open>0\<close> whatever the total paid is. Nothing bounds the fraction from below: it is the specification's
  \<open>clamp(p / b, 0, 1)\<close> when the total paid is not negative. The first version computes
  the same remainder, and for a positive budget the same fraction as a percentage; what
  it does for a budget of \<open>0\<close> is left out here.
\<close>

theorem paid_fraction_amended:
  "(Number (budget (settings d)) = Fin b \<and> totalPaid (compute_fresh d) = Fin p \<longrightarrow>
      budgetLeft (compute_fresh d) = Fin (b - p)
      \<and> budgetPercent (compute_fresh d) = Fin (if 0 < b then min (p / b) 1 else 0)
      \<and> (0 \<le> p \<longrightarrow> budgetPercent (compute_fresh d) = Fin (paidFraction_spec p b)))
   \<and> (Number (budget (settings d)) = Fin 0 \<longrightarrow> budgetPercent (compute_fresh d) = Fin 0)
   \<and> (Number (total_budget (w_settings w)) = Fin c \<and> p_totalSpent (P_dashboard_of w) = Fin q \<and> 0 < c \<longrightarrow>
      p_remaining (P_dashboard_of w) = Fin (c - q)
      \<and> p_width (P_dashboard_of w) = Fin (100 * min (q / c) 1)
      \<and> (0 \<le> q \<longrightarrow> p_width (P_dashboard_of w) = Fin (100 * paidFraction_spec q c)))"
proof (intro conjI impI)
  assume h: "Number (budget (settings d)) = Fin b \<and> totalPaid (compute_fresh d) = Fin p"
  show left: "budgetLeft (compute_fresh d) = Fin (b - p)"
    using h compute_fresh_budget [of d] by (simp add: jsub_def)
  show pct: "budgetPercent (compute_fresh d) = Fin (if 0 < b then min (p / b) 1 else 0)"
    using h compute_fresh_budget [of d] by (simp add: jgt_Fin Math_min_Fin)
  assume "0 \<le> p"
  then show "budgetPercent (compute_fresh d) = Fin (paidFraction_spec p b)"
    using pct by (simp add: paidFraction_spec_nonneg)
next
  assume "Number (budget (settings d)) = Fin 0"
  then show "budgetPercent (compute_fresh d) = Fin 0"
    using compute_fresh_budget [of d] by (simp add: jgt_Fin)
next
  assume h: "Number (total_budget (w_settings w)) = Fin c \<and> p_totalSpent (P_dashboard_of w) = Fin q \<and> 0 < c"
  show "p_remaining (P_dashboard_of w) = Fin (c - q)"
    using h P_dashboard_budget [of w] by (simp add: jsub_def)
  have "min (x * 100) 100 = 100 * min x 1" for x :: rat
    by (auto simp: min_def)
  then have "min (q / c * 100) 100 = 100 * min (q / c) 1" .
  then show wd: "p_width (P_dashboard_of w) = Fin (100 * min (q / c) 1)"
    using h P_dashboard_budget [of w] by (simp add: Math_min_Fin)
  assume "0 \<le> q"
  then show "p_width (P_dashboard_of w) = Fin (100 * paidFraction_spec q c)"
    using wd h by (simp add: paidFraction_spec_nonneg)
qed

lemma doc_100000_paid: "totalPaid (compute_fresh doc_100000) = Fin 20000"
  by (simp add: compute_fresh_def doc_100000_def expense_50000_20000_def defaults_def num_or_def num_truthy_def Let_def)

lemma wdoc_100000_spent: "p_totalSpent (P_dashboard_of wdoc_100000) = Fin 20000"
  by (simp add: P_dashboard_of_def wdoc_100000_def W_defaults_def js_or_def Let_def parse_defs)

text \<open>The specification's example: \<open>80000\<close> remain and a fifth is paid.\<close>

theorem paid_fraction_amended_witness:
  "budgetLeft (compute_fresh doc_100000) = Fin 80000
   \<and> budgetPercent (compute_fresh doc_100000) = Fin (1 / 5)
   \<and> totalPaid (compute_fresh doc_100000) = Fin 20000
   \<and> p_remaining (P_dashboard_of wdoc_100000) = Fin 80000
   \<and> p_width (P_dashboard_of wdoc_100000) = Fin 20"
proof -
  have b: "Number (budget (settings doc_100000)) = Fin 100000"
    by (simp add: doc_100000_def)
  have c: "Number (total_budget (w_settings wdoc_100000)) = Fin 100000"
    by (simp add: wdoc_100000_def W_defaults_def)
  show ?thesis
    using paid_fraction_amended [of doc_100000 100000 20000 wdoc_100000 100000 20000]
      b c doc_100000_paid wdoc_100000_spent
    by (simp add: paidFraction_spec_def clamp_def)
qed

text \<open>
  Claim C1 as it is worded fails for a negative total paid: with a budget of \<open>100\<close> and
  \<open>-50\<close> paid the snapshot's fraction is \<open>-1/2\<close>, and \<open>clamp(-50 / 100, 0, 1)\<close> is \<open>0\<close>.
\<close>

theorem paid_fraction_counterexample:
  "totalPaid (compute_fresh doc_negative_paid) = Fin (- 50)
   \<and> Number (budget (settings doc_negative_paid)) = Fin 100
   \<and> budgetPercent (compute_fresh doc_negative_paid) = Fin (- (1 / 2))
   \<and> paidFraction_spec (- 50) 100 = 0
   \<and> budgetPercent (compute_fresh doc_negative_paid) \<noteq> Fin (paidFraction_spec (- 50) 100)"
  by (simp add: compute_fresh_def doc_negative_paid_def expense_50000_20000_def defaults_def
      num_or_def num_truthy_def Let_def jgt_Fin Math_min_Fin paidFraction_spec_def clamp_def)

text \<open>The expense form takes a negative amount: \<open>-50\<close> typed into the paid field is stored.\<close>

lemma negative_paid_stored:
  "map e_paid (expenses (data (expense_save ck
      \<lparr>mExpTitle = ''Hall'', mExpCat = ''Hall'', mExpCost = ''50000'', mExpPaid = ''-50'', mExpNote = []\<rparr> app0)))
   = [JNum (Fin (- 50))]"
proof -
  have "StringToNumber ''-50'' = Fin (- 50)" "StringToNumber ''50000'' = Fin 50000"
      "trim ''Hall'' = ''Hall''"
    by (simp_all add: parse_defs)
  then show ?thesis
    by (simp add: expense_save_def app0_def defaults_def toast_def save_def scheduleRender_def
        Let_def num_or_def num_truthy_def)
qed

text \<open>
  The first version divides by the budget without a test: for a budget of \<open>0\<close> and
  nothing paid the percentage and the width of the bar are NaN.
\<close>

lemma P_zero_budget:
  "p_percent (P_dashboard_of (W_defaults\<lparr>w_settings := (w_settings W_defaults)\<lparr>total_budget := JStr ''0''\<rparr>\<rparr>)) = NaN
   \<and> p_width (P_dashboard_of (W_defaults\<lparr>w_settings := (w_settings W_defaults)\<lparr>total_budget := JStr ''0''\<rparr>\<rparr>)) = NaN"
  by (simp add: P_dashboard_of_def W_defaults_def Let_def Math_min_def parse_defs)

text \<open>The optimised engine tests the budget before it divides: a budget of \<open>0\<close> gives \<open>0\<close>.\<close>

lemma W_zero_budget:
  "W_percent ((w_settings W_defaults)\<lparr>total_budget := JNum (Fin 0)\<rparr>) t = Fin 0"
  by (simp add: W_percent_def jgt_Fin)

section \<open>Missing and non-numeric fields\<close>

lemma jsum_insert: "jsum (xs @ n # ys) = jadd n (jsum (xs @ ys))"
  by (induction xs) (simp_all add: jsum_Cons jadd_left_commute)

lemma num_or_NaN: "num_or NaN b = b"
  by (simp add: num_or_def num_truthy_def)

lemma compute_fresh_sums:
  "totalCost (compute_fresh d) = jsum (map (\<lambda>e. num_or (Number (e_cost e)) (Fin 0)) (expenses d))
   \<and> totalPaid (compute_fresh d) = jsum (map (\<lambda>e. num_or (Number (e_paid e)) (Fin 0)) (expenses d))
   \<and> totalGuests (compute_fresh d) = jsum (map (\<lambda>g. num_or (Number (g_count g)) (Fin 1)) (guests d))
   \<and> gifts (compute_fresh d) = jsum (map (\<lambda>g. num_or (Number (g_gift g)) (Fin 0)) (guests d))"
  using compute_fresh_expenses [of d] compute_fresh_guests [of d]
  unfolding expenses_loop_sums guests_loop_buckets
  by (simp add: jadd_zero_left)

lemma W_expenses_loop_sum:
  "W_expenses_loop es ts = jadd ts (jsum (map (\<lambda>e. num_or (Number (paid_amount e)) (Fin 0)) es))"
proof (induction es arbitrary: ts)
  case Nil
  show ?case by (simp add: jsum_Nil jadd_zero_right)
next
  case (Cons e es)
  show ?case by (simp add: Cons.IH jsum_Cons jadd_assoc)
qed

lemma W_guests_loop_sums:
  "W_guests_loop gs (tg, gi) =
     (jadd tg (jsum (map (\<lambda>g. num_or (Number (total_people g)) (Fin 1)) gs)),
      jadd gi (jsum (map (\<lambda>g. num_or (Number (wg_gift g)) (Fin 0)) gs)))"
proof (induction gs arbitrary: tg gi)
  case Nil
  show ?case by (simp add: jsum_Nil jadd_zero_right)
next
  case (Cons g gs)
  show ?case by (simp add: Cons.IH jsum_Cons jadd_assoc)
qed

lemma W_totals_fresh_sums:
  "totalSpent (W_totals_fresh w) = jsum (map (\<lambda>e. num_or (Number (paid_amount e)) (Fin 0)) (w_expenses w))
   \<and> w_totalGuests (W_totals_fresh w) = jsum (map (\<lambda>g. num_or (Number (total_people g)) (Fin 1)) (w_guests w))
   \<and> totalGifts (W_totals_fresh w) = jsum (map (\<lambda>g. num_or (Number (wg_gift g)) (Fin 0)) (w_guests w))"
  by (simp add: W_totals_fresh_def Let_def W_expenses_loop_sum W_guests_loop_sums jadd_zero_left)

text \<open>
  Claim C2, amended. A record whose cost, paid amount or gift is missing or does not
  convert to a number (\<^verbatim>\<open>Number\<close> gives NaN) adds nothing to the total cost, the total
  paid or the gift sum: the total is that of the list without the record. A guest whose
  party size is missing or does not convert to a number adds \<open>1\<close> to the total guest
  count. This holds for \<^verbatim>\<open>App.compute\<close> and for \<^verbatim>\<open>WeddingApp._computeTotals\<close>.
\<close>

theorem missing_fields_contribute:
  "(Number (e_cost e) = NaN \<longrightarrow>
      totalCost (compute_fresh (d\<lparr>expenses := xs @ e # ys\<rparr>)) = totalCost (compute_fresh (d\<lparr>expenses := xs @ ys\<rparr>)))
   \<and> (Number (e_paid e) = NaN \<longrightarrow>
      totalPaid (compute_fresh (d\<lparr>expenses := xs @ e # ys\<rparr>)) = totalPaid (compute_fresh (d\<lparr>expenses := xs @ ys\<rparr>)))
   \<and> (Number (g_gift g) = NaN \<longrightarrow>
      gifts (compute_fresh (d\<lparr>guests := us @ g # vs\<rparr>)) = gifts (compute_fresh (d\<lparr>guests := us @ vs\<rparr>)))
   \<and> (Number (g_count g) = NaN \<longrightarrow>
      totalGuests (compute_fresh (d\<lparr>guests := us @ g # vs\<rparr>)) =
        jadd (Fin 1) (totalGuests (compute_fresh (d\<lparr>guests := us @ vs\<rparr>))))
   \<and> (Number (paid_amount x) = NaN \<longrightarrow>
      totalSpent (W_totals_fresh (w\<lparr>w_expenses := ps @ x # qs\<rparr>)) = totalSpent (W_totals_fresh (w\<lparr>w_expenses := ps @ qs\<rparr>)))
   \<and> (Number (wg_gift h) = NaN \<longrightarrow>
      totalGifts (W_totals_fresh (w\<lparr>w_guests := hs @ h # ks\<rparr>)) = totalGifts (W_totals_fresh (w\<lparr>w_guests := hs @ ks\<rparr>)))
   \<and> (Number (total_people h) = NaN \<longrightarrow>
      w_totalGuests (W_totals_fresh (w\<lparr>w_guests := hs @ h # ks\<rparr>)) =
        jadd (Fin 1) (w_totalGuests (W_totals_fresh (w\<lparr>w_guests := hs @ ks\<rparr>))))"
  by (simp add: compute_fresh_sums W_totals_fresh_sums jsum_insert num_or_NaN jadd_zero_left)

text \<open>
  Claim C2 as it is worded fails for the party size: one guest without a count makes the
  total guest count \<open>1\<close>, not \<open>0\<close>.
\<close>

theorem missing_count_counterexample:
  "Number (g_count guest_without_count) = NaN
   \<and> totalGuests (compute_fresh (defaults\<lparr>guests := []\<rparr>)) = Fin 0
   \<and> totalGuests (compute_fresh (defaults\<lparr>guests := [guest_without_count]\<rparr>)) = Fin 1"
  by (simp add: compute_fresh_sums guest_without_count_def jsum_Nil jsum_Cons num_or_NaN)

lemma soon_NaN: "StringToNumber ''soon'' = NaN"
  by (simp add: parse_defs)

text \<open>Records with a missing field and with the text \<^verbatim>\<open>soon\<close> in a numeric field.\<close>

theorem missing_fields_contribute_witness:
  "totalCost (compute_fresh (defaults\<lparr>expenses := [] @ expense_without_cost # []\<rparr>)) = Fin 0
   \<and> totalPaid (compute_fresh (defaults\<lparr>expenses := [] @ expense_without_cost # []\<rparr>)) = Fin 0
   \<and> gifts (compute_fresh (defaults\<lparr>guests := [] @ guest_without_count # []\<rparr>)) = Fin 0
   \<and> totalGuests (compute_fresh (defaults\<lparr>guests := [] @ guest_without_count # []\<rparr>)) = Fin 1
   \<and> totalSpent (W_totals_fresh (W_defaults\<lparr>w_expenses := [] @ W_expense_unpaid # []\<rparr>)) = Fin 0
   \<and> totalGifts (W_totals_fresh (W_defaults\<lparr>w_guests := [] @ W_guest_without_count # []\<rparr>)) = Fin 0
   \<and> w_totalGuests (W_totals_fresh (W_defaults\<lparr>w_guests := [] @ W_guest_without_count # []\<rparr>)) = Fin 1"
proof -
  have e: "Number (e_cost expense_without_cost) = NaN" "Number (e_paid expense_without_cost) = NaN"
    by (simp_all add: expense_without_cost_def soon_NaN)
  have g: "Number (g_gift guest_without_count) = NaN" "Number (g_count guest_without_count) = NaN"
    by (simp_all add: guest_without_count_def soon_NaN)
  have w: "Number (paid_amount W_expense_unpaid) = NaN" "Number (wg_gift W_guest_without_count) = NaN"
      "Number (total_people W_guest_without_count) = NaN"
    by (simp_all add: W_expense_unpaid_def W_guest_without_count_def soon_NaN)
  have empty: "totalCost (compute_fresh (defaults\<lparr>expenses := [] @ []\<rparr>)) = Fin 0"
      "totalPaid (compute_fresh (defaults\<lparr>expenses := [] @ []\<rparr>)) = Fin 0"
      "gifts (compute_fresh (defaults\<lparr>guests := [] @ []\<rparr>)) = Fin 0"
      "totalGuests (compute_fresh (defaults\<lparr>guests := [] @ []\<rparr>)) = Fin 0"
      "totalSpent (W_totals_fresh (W_defaults\<lparr>w_expenses := [] @ []\<rparr>)) = Fin 0"
      "totalGifts (W_totals_fresh (W_defaults\<lparr>w_guests := [] @ []\<rparr>)) = Fin 0"
      "w_totalGuests (W_totals_fresh (W_defaults\<lparr>w_guests := [] @ []\<rparr>)) = Fin 0"
    by (simp_all add: compute_fresh_sums W_totals_fresh_sums jsum_Nil)
  show ?thesis
    using missing_fields_contribute [where e = expense_without_cost and d = defaults and xs = "[]"
        and ys = "[]" and g = guest_without_count and us = "[]" and vs = "[]"
        and x = W_expense_unpaid and w = W_defaults and ps = "[]" and qs = "[]"
        and h = W_guest_without_count and hs = "[]" and ks = "[]"]
      e g w empty
    by simp
qed

section \<open>Escaping\<close>

lemma amp_starts_entity_index:
  "amp_starts_entity xs \<longleftrightarrow>
     (\<forall>i < length xs. xs ! i = CHR ''&'' \<longrightarrow> (\<exists>e \<in> set entities. prefix e (drop i xs)))"
  by (induction xs) (simp_all add: All_less_Suc2)

lemma amp_starts_entity_esc_char:
  "amp_starts_entity rest \<Longrightarrow> amp_starts_entity (esc_char c @ rest)"
  by (auto simp: esc_char_def entities_def)

lemma amp_starts_entity_replace: "amp_starts_entity (replace_special str)"
  by (induction str) (simp_all add: replace_special_def amp_starts_entity_esc_char del: amp_starts_entity.simps(2))

lemma esc_char_plain:
  "x \<in> set (esc_char c) \<Longrightarrow> x \<noteq> CHR ''<'' \<and> x \<noteq> CHR ''>'' \<and> x \<noteq> CHR 0x22 \<and> x \<noteq> CHR 0x27"
  by (auto simp: esc_char_def split: if_splits)

lemma replace_special_plain:
  "x \<in> set (replace_special str) \<Longrightarrow> x \<noteq> CHR ''<'' \<and> x \<noteq> CHR ''>'' \<and> x \<noteq> CHR 0x22 \<and> x \<noteq> CHR 0x27"
  unfolding replace_special_def using esc_char_plain by auto

text \<open>
  Claim C10. For every value, the result of \<^verbatim>\<open>esc\<close> (and of \<^verbatim>\<open>_escapeHtml\<close>, the same
  function) holds none of the characters \<^verbatim>\<open><\<close>, \<^verbatim>\<open>>\<close>, double quote and single quote,
  and every \<^verbatim>\<open>&\<close> in it is the first character of one of the five entities. For
  \<^verbatim>\<open>null\<close>, \<^verbatim>\<open>undefined\<close> and the empty string the result is empty. The digits a number
  is written with do not matter: the statement holds for every \<open>numstr\<close>.
\<close>

theorem esc_output:
  "(\<forall>x \<in> set (esc numstr v). x \<noteq> CHR ''<'' \<and> x \<noteq> CHR ''>'' \<and> x \<noteq> CHR 0x22 \<and> x \<noteq> CHR 0x27)
   \<and> (\<forall>i < length (esc numstr v). esc numstr v ! i = CHR ''&'' \<longrightarrow>
         (\<exists>e \<in> set entities. prefix e (drop i (esc numstr v))))
   \<and> esc numstr JNull = [] \<and> esc numstr JUndefined = [] \<and> esc numstr (JStr []) = []"
proof (intro conjI)
  show "\<forall>x \<in> set (esc numstr v). x \<noteq> CHR ''<'' \<and> x \<noteq> CHR ''>'' \<and> x \<noteq> CHR 0x22 \<and> x \<noteq> CHR 0x27"
    using replace_special_plain by (auto simp: esc_def)
  have "amp_starts_entity (esc numstr v)"
    by (simp add: esc_def amp_starts_entity_replace)
  then show "\<forall>i < length (esc numstr v). esc numstr v ! i = CHR ''&'' \<longrightarrow>
         (\<exists>e \<in> set entities. prefix e (drop i (esc numstr v)))"
    by (simp only: amp_starts_entity_index)
qed (simp_all add: esc_def)

text \<open>The sample text escaped: the \<^verbatim>\<open>&\<close> at index \<open>33\<close> starts \<^verbatim>\<open>&amp;\<close>.\<close>

theorem esc_output_witness:
  "esc (\<lambda>n. []) (JStr sample_text) = ''&lt;b title=&quot;x&quot;&gt;Tom &amp; Jerry&#039;s&lt;/b&gt;''
   \<and> esc (\<lambda>n. []) (JStr sample_text) ! 33 = CHR ''&''
   \<and> prefix ''&amp;'' (drop 33 (esc (\<lambda>n. []) (JStr sample_text)))
   \<and> CHR ''<'' \<notin> set (esc (\<lambda>n. []) (JStr sample_text))"
proof -
  have v: "esc (\<lambda>n. []) (JStr sample_text) = ''&lt;b title=&quot;x&quot;&gt;Tom &amp; Jerry&#039;s&lt;/b&gt;''"
    by (simp add: esc_def replace_special_def esc_char_def sample_text_def)
  have "CHR ''<'' \<notin> set (esc (\<lambda>n. []) (JStr sample_text))"
    using esc_output [of "\<lambda>n. []" "JStr sample_text"] by blast
  then show ?thesis
    using v by simp
qed

section \<open>Delete\<close>

lemma splice_start_index: "splice_start (Fin (of_nat i)) len = min i len"
  by (simp add: splice_start_def)

lemma splice1_in_range:
  "i < length xs \<Longrightarrow> splice1 (Fin (of_nat i)) xs = take i xs @ drop (Suc i) xs"
  by (simp add: splice1_def splice_start_index Let_def min_def)

lemma splice1_beyond:
  "length xs \<le> i \<Longrightarrow> splice1 (Fin (of_nat i)) xs = xs"
  by (simp add: splice1_def splice_start_index Let_def)

lemma splice1_from_end:
  "0 < k \<Longrightarrow> k \<le> length xs \<Longrightarrow>
     splice1 (Fin (- of_nat k)) xs = take (length xs - k) xs @ drop (Suc (length xs - k)) xs"
proof -
  assume k: "0 < k" "k \<le> length xs"
  have "\<lceil>- (of_nat k :: rat)\<rceil> = - int k" by (simp add: ceiling_minus)
  moreover have "\<lfloor>- (of_nat k :: rat)\<rfloor> = - int k" by (metis floor_of_int of_int_minus of_int_of_nat_eq)
  ultimately have "splice_start (Fin (- of_nat k)) (length xs) = length xs - k"
    using k by (simp add: splice_start_def nat_diff_distrib')
  then show ?thesis
    using k by (simp add: splice1_def Let_def min_def)
qed

lemma splice1_NaN: "splice1 NaN xs = drop 1 xs"
  by (cases xs) (simp_all add: splice1_def splice_start_def Let_def)

lemma deleteExpense_in_range:
  "i < length (expenses (data a)) \<Longrightarrow>
     data (deleteExpense True (Fin (of_nat i)) a) =
       (data a)\<lparr>expenses := take i (expenses (data a)) @ drop (Suc i) (expenses (data a))\<rparr>"
  by (simp add: deleteExpense_def toast_def save_def scheduleRender_def splice1_in_range Let_def)

lemma deleteExpense_beyond:
  "length (expenses (data a)) \<le> i \<Longrightarrow> data (deleteExpense True (Fin (of_nat i)) a) = data a"
  by (simp add: deleteExpense_def toast_def save_def scheduleRender_def splice1_beyond Let_def)

lemma delete_declined:
  "deleteExpense False idx a = a \<and> deleteGuest False idx a = a \<and> deleteTask False idx a = a
   \<and> W_deleteItem False ty idx w = w \<and> P_deleteItem False ty idx p = Returned p"
  by (simp add: deleteExpense_def deleteGuest_def deleteTask_def W_deleteItem_def P_deleteItem_def)

text \<open>The handler that tests its index leaves the state as it is outside the range.\<close>

lemma toggleTask_out_of_range:
  "jlt idx (Fin 0) \<or> jge idx (js_length (tasks (data a))) \<Longrightarrow> toggleTask idx a = Returned a"
  by (simp add: toggleTask_def)

text \<open>
  Claim C5 at an index of \<open>-1\<close> and at an index that is NaN: \<^verbatim>\<open>splice\<close> counts a negative
  index from the end and reads NaN as \<open>0\<close>, so the last expense and the first expense
  are removed, in all three variants.
\<close>

theorem delete_out_of_range:
  "expenses (data (deleteExpense True (Fin (- 1)) app_two)) = [expense_50000_20000]
   \<and> expenses (data (deleteExpense True NaN app_two)) = [expense_without_cost]
   \<and> w_expenses (w_data (W_deleteItem True Expenses (Fin (- 1)) (wapp0\<lparr>w_data := W_data_two\<rparr>))) = [W_expense_hall]
   \<and> w_expenses (w_data (W_deleteItem True Expenses NaN (wapp0\<lparr>w_data := W_data_two\<rparr>))) = [W_expense_unpaid]
   \<and> w_expenses (p_data (outcome_state (P_deleteItem True Expenses (Fin (- 1)) (papp0\<lparr>p_data := W_data_two\<rparr>))))
       = [W_expense_hall]"
proof -
  have neg: "splice1 (Fin (- 1)) [x, y] = [x]" for x y :: 'a
    using splice1_from_end [of 1 "[x, y]"] by simp
  have nan: "splice1 NaN [x, y] = [y]" for x y :: 'a
    by (simp add: splice1_NaN)
  show ?thesis
    by (simp add: deleteExpense_def W_deleteItem_def P_deleteItem_def app_two_def app0_def wapp0_def
        papp0_def W_data_two_def toast_def save_def scheduleRender_def W_saveData_def
        W_scheduleRender_def P_saveData_def P_renderDashboard_def Let_def neg nan)
qed

section \<open>Add\<close>

text \<open>
  The add handlers of \<^verbatim>\<open>src/docs/script.js\<close> and the expense handler of the first version
  stop at an empty required field: the field is highlighted (an alert in the first
  version) and nothing else of the state changes.
\<close>

lemma add_rejected:
  "(trim (mExpTitle f) = [] \<longrightarrow> expense_save ck f a = a\<lparr>notices := notices a @ [Shake ''mExpTitle'']\<rparr>)
   \<and> (trim (mExpTitle f) \<noteq> [] \<and> mExpCost f = [] \<longrightarrow>
        expense_save ck f a = a\<lparr>notices := notices a @ [Shake ''mExpCost'']\<rparr>)
   \<and> (trim (mGName gf) = [] \<longrightarrow> guest_save ck gf a = a\<lparr>notices := notices a @ [Shake ''mGName'']\<rparr>)
   \<and> (trim (mTaskTitle tf) = [] \<longrightarrow> task_save ck tf a = a\<lparr>notices := notices a @ [Shake ''mTaskTitle'']\<rparr>)
   \<and> (trim (exTitle xf) = [] \<longrightarrow> W_expense_save xf w = w\<lparr>w_notices := w_notices w @ [Shake ''exTitle'']\<rparr>)
   \<and> (trim (exTitle xf) \<noteq> [] \<and> exCost xf = [] \<longrightarrow>
        W_expense_save xf w = w\<lparr>w_notices := w_notices w @ [Shake ''exCost'']\<rparr>)
   \<and> (trim (gName wg) = [] \<longrightarrow> W_guest_save wg w = w\<lparr>w_notices := w_notices w @ [Shake ''gName'']\<rparr>)
   \<and> (exTitle xf = [] \<or> exCost xf = [] \<longrightarrow>
        P_expense_save xf p = Returned (p\<lparr>p_notices := p_notices p @ [Alert]\<rparr>))"
  by (simp add: expense_save_def guest_save_def task_save_def W_expense_save_def W_guest_save_def
      P_expense_save_def shakeEl_def W_shakeInput_def Let_def)

text \<open>
  Claim C6 at an empty name in the first version: its guest handler pushes without a
  test, so the guest list and the stored document get a guest with an empty name, and
  nothing is signalled.
\<close>

theorem P_guest_save_without_name:
  "w_guests (p_data (outcome_state (P_guest_save guest_form_no_name papp0))) =
     [\<lparr>wg_name = JStr [], wg_side = JStr ''groom'', total_people = JStr ''1'',
       wg_status = JStr ''pending'', wg_gift = JNum (Fin 0)\<rparr>]
   \<and> p_notices (outcome_state (P_guest_save guest_form_no_name papp0)) = []
   \<and> p_storage (outcome_state (P_guest_save guest_form_no_name papp0)) =
       Some (Json (W_stringify (p_data (outcome_state (P_guest_save guest_form_no_name papp0)))))
   \<and> w_guests (p_data papp0) = []"
  by (simp add: P_guest_save_def guest_form_no_name_def papp0_def P_saveData_def P_renderDashboard_def
      W_defaults_def js_or_def)

section \<open>Update settings\<close>

text \<open>
  Claim C7, amended. The save handlers of the settings modal in \<^verbatim>\<open>src/docs/script.js\<close>
  set the budget to the number that the input converts to, and to \<open>0\<close> when the input
  is empty or not a number; the handler of \<^verbatim>\<open>App\<close> leaves the guest estimate as it is.
  The first version stores the text of the input.
\<close>

theorem settings_budget_fallback:
  "budget (settings (data (settings_save f a))) = JNum (num_or (StringToNumber (mSBudget f)) (Fin 0))
   \<and> guest_estimate (settings (data (settings_save f a))) = guest_estimate (settings (data a))
   \<and> total_budget (w_settings (w_data (W_settings_save g w))) = JNum (num_or (StringToNumber (sBudget g)) (Fin 0))
   \<and> total_budget (w_settings (p_data (outcome_state (P_settings_save g p)))) = JStr (sBudget g)
   \<and> (StringToNumber (mSBudget f) = NaN \<or> StringToNumber (mSBudget f) = Fin 0 \<longrightarrow>
        budget (settings (data (settings_save f a))) = JNum (Fin 0))
   \<and> (StringToNumber (sBudget g) = NaN \<or> StringToNumber (sBudget g) = Fin 0 \<longrightarrow>
        total_budget (w_settings (w_data (W_settings_save g w))) = JNum (Fin 0))"
  by (auto simp: settings_save_def W_settings_save_def P_settings_save_def toast_def save_def
      scheduleRender_def W_saveData_def W_scheduleRender_def P_saveData_def P_renderDashboard_def
      Let_def num_or_def num_truthy_def)

text \<open>An empty budget in \<^verbatim>\<open>App\<close> and the text \<^verbatim>\<open>lots\<close> in the optimised engine.\<close>

theorem settings_budget_fallback_witness:
  "StringToNumber (mSBudget settings_form_no_budget) = Fin 0
   \<and> budget (settings (data (settings_save settings_form_no_budget app0))) = JNum (Fin 0)
   \<and> guest_estimate (settings (data (settings_save settings_form_no_budget app0))) = JNum (Fin 300)
   \<and> StringToNumber (sBudget W_settings_form_bad_budget) = NaN
   \<and> total_budget (w_settings (w_data (W_settings_save W_settings_form_bad_budget wapp0))) = JNum (Fin 0)
   \<and> total_budget (w_settings (p_data (outcome_state (P_settings_save W_settings_form_bad_budget papp0))))
       = JStr ''lots''"
proof -
  have e: "StringToNumber (mSBudget settings_form_no_budget) = Fin 0"
    by (simp add: settings_form_no_budget_def parse_defs)
  have b: "StringToNumber (sBudget W_settings_form_bad_budget) = NaN"
    by (simp add: W_settings_form_bad_budget_def parse_defs)
  have g: "guest_estimate (settings (data app0)) = JNum (Fin 300)"
    by (simp add: app0_def defaults_def)
  have s: "sBudget W_settings_form_bad_budget = ''lots''"
    by (simp add: W_settings_form_bad_budget_def)
  show ?thesis
    using settings_budget_fallback [of settings_form_no_budget app0 W_settings_form_bad_budget wapp0 papp0]
      e b g s
    by (simp add: num_or_def num_truthy_def)
qed

text \<open>
  Claim C7 as it is worded fails: with the budget input left empty the handler of \<^verbatim>\<open>App\<close>
  sets the budget to \<open>0\<close>, which is not between \<open>100000\<close> and \<open>150000\<close>, and the optimised
  engine does so for an input that is not a number.
\<close>

theorem settings_budget_counterexample:
  "budget (settings (data (settings_save settings_form_no_budget app0))) = JNum (Fin 0)
   \<and> \<not> jge (Number (budget (settings (data (settings_save settings_form_no_budget app0))))) (Fin 100000)
   \<and> total_budget (w_settings (w_data (W_settings_save W_settings_form_bad_budget wapp0))) = JNum (Fin 0)
   \<and> \<not> jge (Number (total_budget (w_settings (w_data (W_settings_save W_settings_form_bad_budget wapp0)))))
         (Fin 100000)"
proof -
  have e: "StringToNumber [] = Fin 0"
    by (simp add: parse_defs)
  have b: "StringToNumber ''lots'' = NaN"
    by (simp add: parse_defs)
  show ?thesis
    by (simp add: settings_save_def W_settings_save_def settings_form_no_budget_def
        W_settings_form_bad_budget_def toast_def save_def scheduleRender_def W_saveData_def
        W_scheduleRender_def Let_def num_or_def num_truthy_def jge_def e b)
qed

section \<open>The render scheduler\<close>

lemma scheduleRender_fields:
  "raf (scheduleRender a) \<and> redraws (scheduleRender a) = redraws a
   \<and> frame_callbacks (scheduleRender a) = (if raf a then frame_callbacks a else frame_callbacks a + 1)"
  by (simp add: scheduleRender_def)

lemma mutate_fields:
  "raf (mutate f a) \<and> redraws (mutate f a) = redraws a
   \<and> frame_callbacks (mutate f a) = (if raf a then frame_callbacks a else frame_callbacks a + 1)"
  by (simp add: mutate_def save_def toast_def scheduleRender_def Let_def)

lemma mutations_Nil: "mutations [] a = a"
  by (simp add: mutations_def)

lemma mutations_Cons: "mutations (f # fs) a = mutations fs (mutate f a)"
  by (simp add: mutations_def)

lemma mutations_queued:
  "raf a \<Longrightarrow> raf (mutations fs a) \<and> redraws (mutations fs a) = redraws a
     \<and> frame_callbacks (mutations fs a) = frame_callbacks a"
proof (induction fs arbitrary: a)
  case Nil
  then show ?case by (simp add: mutations_Nil)
next
  case (Cons f fs)
  have "raf (mutate f a)" "redraws (mutate f a) = redraws a"
      "frame_callbacks (mutate f a) = frame_callbacks a"
    using Cons.prems mutate_fields [of f a] by simp_all
  then show ?case
    using Cons.IH [of "mutate f a"] by (simp add: mutations_Cons)
qed

lemma mutations_batch:
  assumes "\<not> raf a" and "fs \<noteq> []"
  shows "raf (mutations fs a) \<and> redraws (mutations fs a) = redraws a
     \<and> frame_callbacks (mutations fs a) = frame_callbacks a + 1"
proof -
  obtain f gs where fs: "fs = f # gs"
    using assms(2) by (cases fs) auto
  have "raf (mutate f a)" "redraws (mutate f a) = redraws a"
      "frame_callbacks (mutate f a) = frame_callbacks a + 1"
    using assms(1) mutate_fields [of f a] by simp_all
  then show ?thesis
    using mutations_queued [of "mutate f a" gs] by (simp add: fs mutations_Cons)
qed

lemma renderAll_fields:
  "raf (renderAll a) = raf a \<and> redraws (renderAll a) = redraws a + 1
   \<and> frame_callbacks (renderAll a) = frame_callbacks a"
  by (simp add: renderAll_def compute_def Let_def split: option.splits)

lemma frame_callback_fields:
  "redraws (frame_callback during a) = redraws a + 1
   \<and> raf (frame_callback during a) = (during \<noteq> [])
   \<and> frame_callbacks (frame_callback during a) = frame_callbacks a + (if during = [] then 0 else 1)"
proof (cases "during = []")
  case True
  then show ?thesis
    using renderAll_fields [of "a\<lparr>raf := False\<rparr>"] by (simp add: frame_callback_def mutations_Nil)
next
  case False
  have "\<not> raf (renderAll (a\<lparr>raf := False\<rparr>))"
    using renderAll_fields [of "a\<lparr>raf := False\<rparr>"] by simp
  then show ?thesis
    using False mutations_batch [of "renderAll (a\<lparr>raf := False\<rparr>)" during]
      renderAll_fields [of "a\<lparr>raf := False\<rparr>"]
    by (simp add: frame_callback_def)
qed

lemma animation_frame_one:
  "frame_callbacks a = 1 \<Longrightarrow>
     redraws (animation_frame during a) = redraws a + 1
     \<and> raf (animation_frame during a) = (during \<noteq> [])
     \<and> frame_callbacks (animation_frame during a) = (if during = [] then 0 else 1)"
  using frame_callback_fields [of during "a\<lparr>frame_callbacks := 0\<rparr>"]
  by (simp add: animation_frame_def)

lemma W_scheduleRender_fields:
  "renderQueued (W_scheduleRender a) \<and> w_redraws (W_scheduleRender a) = w_redraws a
   \<and> w_frame_callbacks (W_scheduleRender a) = (if renderQueued a then w_frame_callbacks a else w_frame_callbacks a + 1)"
  by (simp add: W_scheduleRender_def)

lemma W_mutate_fields:
  "renderQueued (W_mutate f a) \<and> w_redraws (W_mutate f a) = w_redraws a
   \<and> w_frame_callbacks (W_mutate f a) = (if renderQueued a then w_frame_callbacks a else w_frame_callbacks a + 1)"
  by (simp add: W_mutate_def W_saveData_def W_scheduleRender_def Let_def)

lemma W_mutations_Nil: "W_mutations [] a = a"
  by (simp add: W_mutations_def)

lemma W_mutations_Cons: "W_mutations (f # fs) a = W_mutations fs (W_mutate f a)"
  by (simp add: W_mutations_def)

lemma W_mutations_queued:
  "renderQueued a \<Longrightarrow> renderQueued (W_mutations fs a) \<and> w_redraws (W_mutations fs a) = w_redraws a
     \<and> w_frame_callbacks (W_mutations fs a) = w_frame_callbacks a"
proof (induction fs arbitrary: a)
  case Nil
  then show ?case by (simp add: W_mutations_Nil)
next
  case (Cons f fs)
  have "renderQueued (W_mutate f a)" "w_redraws (W_mutate f a) = w_redraws a"
      "w_frame_callbacks (W_mutate f a) = w_frame_callbacks a"
    using Cons.prems W_mutate_fields [of f a] by simp_all
  then show ?case
    using Cons.IH [of "W_mutate f a"] by (simp add: W_mutations_Cons)
qed

lemma W_mutations_batch:
  assumes "\<not> renderQueued a" and "fs \<noteq> []"
  shows "renderQueued (W_mutations fs a) \<and> w_redraws (W_mutations fs a) = w_redraws a
     \<and> w_frame_callbacks (W_mutations fs a) = w_frame_callbacks a + 1"
proof -
  obtain f gs where fs: "fs = f # gs"
    using assms(2) by (cases fs) auto
  have "renderQueued (W_mutate f a)" "w_redraws (W_mutate f a) = w_redraws a"
      "w_frame_callbacks (W_mutate f a) = w_frame_callbacks a + 1"
    using assms(1) W_mutate_fields [of f a] by simp_all
  then show ?thesis
    using W_mutations_queued [of "W_mutate f a" gs] by (simp add: fs W_mutations_Cons)
qed

lemma W_renderDashboard_fields:
  "renderQueued (W_renderDashboard a) = renderQueued a \<and> w_redraws (W_renderDashboard a) = w_redraws a + 1
   \<and> w_frame_callbacks (W_renderDashboard a) = w_frame_callbacks a"
  by (simp add: W_renderDashboard_def W_computeTotals_def Let_def split: option.splits prod.splits)

lemma W_frame_callback_fields:
  "w_redraws (W_frame_callback during a) = w_redraws a + 1
   \<and> renderQueued (W_frame_callback during a) = (during \<noteq> [])
   \<and> w_frame_callbacks (W_frame_callback during a) = w_frame_callbacks a + (if during = [] then 0 else 1)"
proof (cases "during = []")
  case True
  then show ?thesis
    using W_renderDashboard_fields [of "a\<lparr>renderQueued := False\<rparr>"] by (simp add: W_frame_callback_def W_mutations_Nil)
next
  case False
  have "\<not> renderQueued (W_renderDashboard (a\<lparr>renderQueued := False\<rparr>))"
    using W_renderDashboard_fields [of "a\<lparr>renderQueued := False\<rparr>"] by simp
  then show ?thesis
    using False W_mutations_batch [of "W_renderDashboard (a\<lparr>renderQueued := False\<rparr>)" during]
      W_renderDashboard_fields [of "a\<lparr>renderQueued := False\<rparr>"]
    by (simp add: W_frame_callback_def)
qed

lemma W_animation_frame_one:
  "w_frame_callbacks a = 1 \<Longrightarrow>
     w_redraws (W_animation_frame during a) = w_redraws a + 1
     \<and> renderQueued (W_animation_frame during a) = (during \<noteq> [])
     \<and> w_frame_callbacks (W_animation_frame during a) = (if during = [] then 0 else 1)"
  using W_frame_callback_fields [of during "a\<lparr>w_frame_callbacks := 0\<rparr>"]
  by (simp add: W_animation_frame_def)

text \<open>
  Between events the flag is set exactly when one callback is queued. This holds at the
  start and is kept by every mutation and every animation frame.
\<close>

lemma scheduler_invariant:
  "frame_callbacks app0 = (if raf app0 then 1 else 0)"
  "frame_callbacks a = (if raf a then 1 else 0) \<Longrightarrow>
     frame_callbacks (mutate f a) = (if raf (mutate f a) then 1 else 0)"
  "frame_callbacks a = (if raf a then 1 else 0) \<Longrightarrow>
     frame_callbacks (animation_frame during a) = (if raf (animation_frame during a) then 1 else 0)"
proof -
  show "frame_callbacks app0 = (if raf app0 then 1 else 0)"
    by (simp add: app0_def)
  show "frame_callbacks a = (if raf a then 1 else 0) \<Longrightarrow>
     frame_callbacks (mutate f a) = (if raf (mutate f a) then 1 else 0)"
    using mutate_fields [of f a] by simp
  assume inv: "frame_callbacks a = (if raf a then 1 else 0)"
  show "frame_callbacks (animation_frame during a) = (if raf (animation_frame during a) then 1 else 0)"
  proof (cases "raf a")
    case True
    then have "frame_callbacks a = 1" using inv by simp
    then show ?thesis using animation_frame_one [of a during] by simp
  next
    case False
    then have "frame_callbacks a = 0" using inv by simp
    then show ?thesis using False by (simp add: animation_frame_def)
  qed
qed

lemma W_scheduler_invariant:
  "w_frame_callbacks wapp0 = (if renderQueued wapp0 then 1 else 0)"
  "w_frame_callbacks a = (if renderQueued a then 1 else 0) \<Longrightarrow>
     w_frame_callbacks (W_mutate f a) = (if renderQueued (W_mutate f a) then 1 else 0)"
  "w_frame_callbacks a = (if renderQueued a then 1 else 0) \<Longrightarrow>
     w_frame_callbacks (W_animation_frame during a) = (if renderQueued (W_animation_frame during a) then 1 else 0)"
proof -
  show "w_frame_callbacks wapp0 = (if renderQueued wapp0 then 1 else 0)"
    by (simp add: wapp0_def)
  show "w_frame_callbacks a = (if renderQueued a then 1 else 0) \<Longrightarrow>
     w_frame_callbacks (W_mutate f a) = (if renderQueued (W_mutate f a) then 1 else 0)"
    using W_mutate_fields [of f a] by simp
  assume inv: "w_frame_callbacks a = (if renderQueued a then 1 else 0)"
  show "w_frame_callbacks (W_animation_frame during a) = (if renderQueued (W_animation_frame during a) then 1 else 0)"
  proof (cases "renderQueued a")
    case True
    then have "w_frame_callbacks a = 1" using inv by simp
    then show ?thesis using W_animation_frame_one [of a during] by simp
  next
    case False
    then have "w_frame_callbacks a = 0" using inv by simp
    then show ?thesis using False by (simp add: W_animation_frame_def)
  qed
qed

lemma mutations_pending:
  assumes "frame_callbacks a = (if raf a then 1 else 0)" and "fs \<noteq> []"
  shows "raf (mutations fs a) \<and> redraws (mutations fs a) = redraws a \<and> frame_callbacks (mutations fs a) = 1"
proof (cases "raf a")
  case True
  then show ?thesis using mutations_queued [of a fs] assms(1) by simp
next
  case False
  then show ?thesis using mutations_batch [of a fs] assms by simp
qed

lemma W_mutations_pending:
  assumes "w_frame_callbacks a = (if renderQueued a then 1 else 0)" and "fs \<noteq> []"
  shows "renderQueued (W_mutations fs a) \<and> w_redraws (W_mutations fs a) = w_redraws a
     \<and> w_frame_callbacks (W_mutations fs a) = 1"
proof (cases "renderQueued a")
  case True
  then show ?thesis using W_mutations_queued [of a fs] assms(1) by simp
next
  case False
  then show ?thesis using W_mutations_batch [of a fs] assms by simp
qed

text \<open>
  Claim C8. Between events the flag is set exactly when one callback is queued. From
  such a state, two or more mutations before the next animation frame leave one callback
  queued, and the frame calls the renderer once for all of them. The callback clears the
  flag before it renders: when mutations are made while it runs (\<open>during\<close> is not
  empty), the flag is set again and one fresh callback is queued, so the frame after that
  renders once more; when none is made, nothing is queued and the next frame renders
  nothing. This holds for \<^verbatim>\<open>App.scheduleRender\<close> and for \<^verbatim>\<open>WeddingApp._scheduleRender\<close>.
\<close>

theorem one_redraw_per_frame:
  assumes "frame_callbacks a = (if raf a then 1 else 0)" and "2 \<le> length fs"
      and "w_frame_callbacks w = (if renderQueued w then 1 else 0)" and "2 \<le> length gs"
  shows "frame_callbacks (mutations fs a) = 1
     \<and> redraws (mutations fs a) = redraws a
     \<and> redraws (animation_frame during (mutations fs a)) = redraws a + 1
     \<and> raf (animation_frame during (mutations fs a)) = (during \<noteq> [])
     \<and> frame_callbacks (animation_frame during (mutations fs a)) = (if during = [] then 0 else 1)
     \<and> redraws (animation_frame [] (animation_frame during (mutations fs a)))
         = redraws a + (if during = [] then 1 else 2)
     \<and> w_frame_callbacks (W_mutations gs w) = 1
     \<and> w_redraws (W_mutations gs w) = w_redraws w
     \<and> w_redraws (W_animation_frame wduring (W_mutations gs w)) = w_redraws w + 1
     \<and> renderQueued (W_animation_frame wduring (W_mutations gs w)) = (wduring \<noteq> [])
     \<and> w_frame_callbacks (W_animation_frame wduring (W_mutations gs w)) = (if wduring = [] then 0 else 1)
     \<and> w_redraws (W_animation_frame [] (W_animation_frame wduring (W_mutations gs w)))
         = w_redraws w + (if wduring = [] then 1 else 2)"
proof -
  let ?b = "mutations fs a"
  let ?c = "animation_frame during ?b"
  have fs: "fs \<noteq> []" using assms(2) by auto
  have b: "raf ?b" "redraws ?b = redraws a" "frame_callbacks ?b = 1"
    using mutations_pending [OF assms(1) fs] by simp_all
  have c: "redraws ?c = redraws a + 1" "raf ?c = (during \<noteq> [])"
      "frame_callbacks ?c = (if during = [] then 0 else 1)"
    using animation_frame_one [OF b(3), of during] b(2) by simp_all
  have d: "redraws (animation_frame [] ?c) = redraws a + (if during = [] then 1 else 2)"
  proof (cases "during = []")
    case True
    then have "frame_callbacks ?c = 0" using c(3) by simp
    then have "animation_frame [] ?c = ?c\<lparr>frame_callbacks := 0\<rparr>"
      by (simp add: animation_frame_def)
    then show ?thesis using True c(1) by simp
  next
    case False
    then have "frame_callbacks ?c = 1" using c(3) by simp
    then show ?thesis using animation_frame_one [of ?c "[]"] c(1) False by simp
  qed
  let ?v = "W_mutations gs w"
  let ?x = "W_animation_frame wduring ?v"
  have gs: "gs \<noteq> []" using assms(4) by auto
  have v: "renderQueued ?v" "w_redraws ?v = w_redraws w" "w_frame_callbacks ?v = 1"
    using W_mutations_pending [OF assms(3) gs] by simp_all
  have x: "w_redraws ?x = w_redraws w + 1" "renderQueued ?x = (wduring \<noteq> [])"
      "w_frame_callbacks ?x = (if wduring = [] then 0 else 1)"
    using W_animation_frame_one [OF v(3), of wduring] v(2) by simp_all
  have y: "w_redraws (W_animation_frame [] ?x) = w_redraws w + (if wduring = [] then 1 else 2)"
  proof (cases "wduring = []")
    case True
    then have "w_frame_callbacks ?x = 0" using x(3) by simp
    then have "W_animation_frame [] ?x = ?x\<lparr>w_frame_callbacks := 0\<rparr>"
      by (simp add: W_animation_frame_def)
    then show ?thesis using True x(1) by simp
  next
    case False
    then have "w_frame_callbacks ?x = 1" using x(3) by simp
    then show ?thesis using W_animation_frame_one [of ?x "[]"] x(1) False by simp
  qed
  show ?thesis using b c d v x y by simp
qed

text \<open>
  Two mutations from the start state, and one more while the frame renders: one redraw
  in the first frame, one callback queued again, a second redraw in the next frame.
\<close>

theorem one_redraw_per_frame_witness:
  "frame_callbacks (mutations [add_hall, add_dana] app0) = 1
   \<and> redraws (animation_frame [add_dana] (mutations [add_hall, add_dana] app0)) = 1
   \<and> frame_callbacks (animation_frame [add_dana] (mutations [add_hall, add_dana] app0)) = 1
   \<and> redraws (animation_frame [] (animation_frame [add_dana] (mutations [add_hall, add_dana] app0))) = 2
   \<and> w_frame_callbacks (W_mutations [W_add_hall, W_add_dana] wapp0) = 1
   \<and> w_redraws (W_animation_frame [] (W_mutations [W_add_hall, W_add_dana] wapp0)) = 1
   \<and> w_frame_callbacks (W_animation_frame [] (W_mutations [W_add_hall, W_add_dana] wapp0)) = 0
   \<and> w_redraws (W_animation_frame [] (W_animation_frame [] (W_mutations [W_add_hall, W_add_dana] wapp0))) = 1"
proof -
  have a: "frame_callbacks app0 = (if raf app0 then 1 else 0)" "redraws app0 = 0"
    by (simp_all add: app0_def)
  have w: "w_frame_callbacks wapp0 = (if renderQueued wapp0 then 1 else 0)" "w_redraws wapp0 = 0"
    by (simp_all add: wapp0_def)
  have l: "2 \<le> length [add_hall, add_dana]" "2 \<le> length [W_add_hall, W_add_dana]"
    by simp_all
  show ?thesis
    using one_redraw_per_frame [OF a(1) l(1) w(1) l(2), of "[add_dana]" "[]"] a(2) w(2)
    by simp
qed

section \<open>The storage adapter\<close>

lemma spread_json_leaf: "json_safe v \<Longrightarrow> present v \<Longrightarrow> spread_leaf dflt (json_leaf v) = v"
  by (simp add: json_safe_def present_def spread_leaf_def)

lemma json_expense_safe: "expense_safe e \<Longrightarrow> json_expense e = e"
  by (simp add: expense_safe_def json_expense_def json_safe_def)

lemma json_guest_safe: "guest_safe g \<Longrightarrow> json_guest g = g"
  by (simp add: guest_safe_def json_guest_def json_safe_def)

lemma json_task_safe: "task_safe t \<Longrightarrow> json_task t = t"
  by (simp add: task_safe_def json_task_def json_safe_def)

lemma map_safe: "list_all P xs \<Longrightarrow> (\<And>x. P x \<Longrightarrow> f x = x) \<Longrightarrow> map f xs = xs"
  by (induction xs) simp_all

lemma spread_json_settings:
  "settings_safe s \<Longrightarrow> spread_settings dflt (Some (json_settings s)) = s"
  by (simp add: settings_safe_def spread_settings_def json_settings_def spread_json_leaf)

lemma load_stringify:
  assumes "storable d" and "storage b = Some (Json (stringify d))"
  shows "data (load b) = d"
proof -
  have e: "map json_expense (expenses d) = expenses d"
    using assms(1) by (simp add: storable_def map_safe [where P = expense_safe] json_expense_safe)
  have g: "map json_guest (guests d) = guests d"
    using assms(1) by (simp add: storable_def map_safe [where P = guest_safe] json_guest_safe)
  have t: "map json_task (tasks d) = tasks d"
    using assms(1) by (simp add: storable_def map_safe [where P = task_safe] json_task_safe)
  have s: "spread_settings (settings defaults) (Some (json_settings (settings d))) = settings d"
    using assms(1) by (simp add: storable_def spread_json_settings)
  have ob: "spread_leaf (onboarded defaults) (json_leaf (onboarded d)) = onboarded d"
    using assms(1) by (simp add: storable_def spread_json_leaf)
  show ?thesis
    using assms(2) e g t s ob by (simp add: load_def stringify_def)
qed

lemma save_storage: "quota_ok a \<Longrightarrow> storage (save a) = Some (Json (stringify (data a)))"
  by (simp add: save_def scheduleRender_def Let_def)

lemma W_saveData_storage:
  "w_quota_ok w \<Longrightarrow> w_storage (W_saveData w) = Some (Json (W_stringify (w_data w)))"
  by (simp add: W_saveData_def W_scheduleRender_def Let_def)

lemma W_json_expense_safe: "W_expense_safe e \<Longrightarrow> W_json_expense e = e"
  by (simp add: W_expense_safe_def W_json_expense_def json_safe_def)

lemma W_json_guest_safe: "W_guest_safe g \<Longrightarrow> W_json_guest g = g"
  by (simp add: W_guest_safe_def W_json_guest_def json_safe_def)

lemma W_loadData_stringify:
  assumes "W_storable d" and "w_storage v = Some (Json (W_stringify d))"
  shows "w_data (W_loadData v) = d"
proof -
  have e: "map W_json_expense (w_expenses d) = w_expenses d"
    using assms(1)
    by (simp add: W_storable_def map_safe [where P = W_expense_safe] W_json_expense_safe)
  have g: "map W_json_guest (w_guests d) = w_guests d"
    using assms(1)
    by (simp add: W_storable_def map_safe [where P = W_guest_safe] W_json_guest_safe)
  have s: "W_spread_settings cur (Some (W_json_settings (w_settings d))) = w_settings d" for cur
    using assms(1)
    by (simp add: W_storable_def W_settings_safe_def W_spread_settings_def W_json_settings_def
        spread_json_leaf)
  show ?thesis
    using assms(2) e g s by (simp add: W_loadData_def W_stringify_def)
qed

text \<open>
  Claim C9. A document that is written by \<^verbatim>\<open>save\<close> and read by \<^verbatim>\<open>load\<close>, in the same or
  in a later session (\<open>b\<close> is any state with the storage that \<^verbatim>\<open>save\<close> left), is the
  document that was written, when the write succeeds and the document is one that JSON
  carries: its numbers finite, \<^verbatim>\<open>onboarded\<close> and the settings there. What is stored does
  not depend on the cache. Without an entry under the key, \<^verbatim>\<open>load\<close> yields the default
  document. The same holds for \<^verbatim>\<open>saveData\<close> and \<^verbatim>\<open>loadData\<close> of the optimised engine,
  whose document without an entry stays the literal it starts as.
\<close>

theorem storage_round_trip:
  "(quota_ok a \<and> storable (data a) \<and> storage b = storage (save a) \<longrightarrow> data (load b) = data a)
   \<and> (storage b = None \<longrightarrow> data (load b) = defaults)
   \<and> storage (save (a\<lparr>cache := c\<rparr>)) = storage (save a)
   \<and> (w_quota_ok w \<and> W_storable (w_data w) \<and> w_storage v = w_storage (W_saveData w) \<longrightarrow>
        w_data (W_loadData v) = w_data w)
   \<and> (w_storage v = None \<and> w_data v = W_defaults \<longrightarrow> w_data (W_loadData v) = W_defaults)
   \<and> w_storage (W_saveData (w\<lparr>cachedTotals := t\<rparr>)) = w_storage (W_saveData w)"
proof (intro conjI impI)
  assume "quota_ok a \<and> storable (data a) \<and> storage b = storage (save a)"
  then show "data (load b) = data a"
    using load_stringify [of "data a" b] save_storage [of a] by simp
next
  assume "storage b = None"
  then show "data (load b) = defaults" by (simp add: load_def)
next
  show "storage (save (a\<lparr>cache := c\<rparr>)) = storage (save a)"
    by (simp add: save_def scheduleRender_def toast_def Let_def)
next
  assume "w_quota_ok w \<and> W_storable (w_data w) \<and> w_storage v = w_storage (W_saveData w)"
  then show "w_data (W_loadData v) = w_data w"
    using W_loadData_stringify [of "w_data w" v] W_saveData_storage [of w] by simp
next
  assume "w_storage v = None \<and> w_data v = W_defaults"
  then show "w_data (W_loadData v) = W_defaults"
    by (simp add: W_loadData_def W_saveData_def W_scheduleRender_def Let_def)
next
  show "w_storage (W_saveData (w\<lparr>cachedTotals := t\<rparr>)) = w_storage (W_saveData w)"
    by (simp add: W_saveData_def W_scheduleRender_def Let_def)
qed

text \<open>
  The two expenses of \<open>app_two\<close>, one of them with missing properties, written in one
  session and read at the start of the next.
\<close>

theorem storage_round_trip_witness:
  "data (load (app0\<lparr>storage := storage (save app_two)\<rparr>)) = data app_two
   \<and> expenses (data (load (app0\<lparr>storage := storage (save app_two)\<rparr>)))
       = [expense_50000_20000, expense_without_cost]
   \<and> data (load app0) = defaults
   \<and> w_data (W_loadData (wapp0\<lparr>w_storage := w_storage (W_saveData (wapp0\<lparr>w_data := W_data_two\<rparr>))\<rparr>))
       = W_data_two
   \<and> w_data (W_loadData wapp0) = W_defaults"
proof -
  have s1: "storable (data app_two)"
    by (simp add: app_two_def app0_def defaults_def storable_def settings_safe_def expense_safe_def
        expense_50000_20000_def expense_without_cost_def json_safe_def present_def)
  have s2: "W_storable (w_data (wapp0\<lparr>w_data := W_data_two\<rparr>))"
    by (simp add: W_data_two_def W_defaults_def W_storable_def W_settings_safe_def W_expense_safe_def
        W_expense_hall_def W_expense_unpaid_def json_safe_def present_def)
  have q: "quota_ok app_two" "w_quota_ok (wapp0\<lparr>w_data := W_data_two\<rparr>)"
      "storage app0 = None" "w_storage wapp0 = None" "w_data wapp0 = W_defaults"
    by (simp_all add: app_two_def app0_def wapp0_def)
  have e: "expenses (data app_two) = [expense_50000_20000, expense_without_cost]"
    by (simp add: app_two_def)
  show ?thesis
    using storage_round_trip [of app_two "app0\<lparr>storage := storage (save app_two)\<rparr>" None
        "wapp0\<lparr>w_data := W_data_two\<rparr>"
        "wapp0\<lparr>w_storage := w_storage (W_saveData (wapp0\<lparr>w_data := W_data_two\<rparr>))\<rparr>" None]
      storage_round_trip [of app_two app0 None "wapp0\<lparr>w_data := W_data_two\<rparr>" wapp0 None]
      s1 s2 q e
    by simp
qed

text \<open>
  The documents that the handlers of \<^verbatim>\<open>App\<close> write are of this kind: from the defaults,
  each handler keeps the document one that JSON carries, as long as the numbers typed
  into the forms are finite.
\<close>

lemma storable_defaults: "storable defaults"
  by (simp add: storable_def defaults_def settings_safe_def json_safe_def present_def)

lemma num_or_finite: "n \<noteq> PInf \<Longrightarrow> n \<noteq> NInf \<Longrightarrow> json_safe (JNum (num_or n (Fin r)))"
  by (cases n) (simp_all add: num_or_def num_truthy_def json_safe_def)

lemma list_all_splice1: "list_all P xs \<Longrightarrow> list_all P (splice1 idx xs)"
  by (auto simp: splice1_def Let_def list_all_iff dest: in_set_takeD in_set_dropD)

lemma storable_handlers:
  assumes "storable (data a)"
  shows "StringToNumber (mExpCost f) \<noteq> PInf \<and> StringToNumber (mExpCost f) \<noteq> NInf
         \<and> StringToNumber (mExpPaid f) \<noteq> PInf \<and> StringToNumber (mExpPaid f) \<noteq> NInf
           \<Longrightarrow> storable (data (expense_save ck f a))"
    and "StringToNumber (mGCount gf) \<noteq> PInf \<and> StringToNumber (mGCount gf) \<noteq> NInf
         \<and> StringToNumber (mGGift gf) \<noteq> PInf \<and> StringToNumber (mGGift gf) \<noteq> NInf
           \<Longrightarrow> storable (data (guest_save ck gf a))"
    and "storable (data (task_save ck tf a))"
    and "StringToNumber (mSBudget sf) \<noteq> PInf \<and> StringToNumber (mSBudget sf) \<noteq> NInf
           \<Longrightarrow> storable (data (settings_save sf a))"
    and "storable (data (deleteExpense ok idx a))"
    and "storable (data (deleteGuest ok idx a))"
    and "storable (data (deleteTask ok idx a))"
proof -
  have js: "json_safe (JStr s)" "json_safe (JBool b)" "json_safe (JNum (Fin r))" for s b r
    by (simp_all add: json_safe_def)
  show "StringToNumber (mExpCost f) \<noteq> PInf \<and> StringToNumber (mExpCost f) \<noteq> NInf
         \<and> StringToNumber (mExpPaid f) \<noteq> PInf \<and> StringToNumber (mExpPaid f) \<noteq> NInf
           \<Longrightarrow> storable (data (expense_save ck f a))"
    using assms
    by (simp add: expense_save_def shakeEl_def toast_def save_def scheduleRender_def Let_def
        storable_def expense_safe_def js num_or_finite)
  show "StringToNumber (mGCount gf) \<noteq> PInf \<and> StringToNumber (mGCount gf) \<noteq> NInf
         \<and> StringToNumber (mGGift gf) \<noteq> PInf \<and> StringToNumber (mGGift gf) \<noteq> NInf
           \<Longrightarrow> storable (data (guest_save ck gf a))"
    using assms
    by (simp add: guest_save_def shakeEl_def toast_def save_def scheduleRender_def Let_def
        storable_def guest_safe_def js num_or_finite)
  show "storable (data (task_save ck tf a))"
    using assms
    by (simp add: task_save_def shakeEl_def toast_def save_def scheduleRender_def Let_def
        storable_def task_safe_def js)
  show "StringToNumber (mSBudget sf) \<noteq> PInf \<and> StringToNumber (mSBudget sf) \<noteq> NInf
           \<Longrightarrow> storable (data (settings_save sf a))"
    using assms
    by (simp add: settings_save_def toast_def save_def scheduleRender_def Let_def
        storable_def settings_safe_def js num_or_finite present_def)
  show "storable (data (deleteExpense ok idx a))"
    using assms
    by (simp add: deleteExpense_def toast_def save_def scheduleRender_def Let_def
        storable_def list_all_splice1)
  show "storable (data (deleteGuest ok idx a))"
    using assms
    by (simp add: deleteGuest_def toast_def save_def scheduleRender_def Let_def
        storable_def list_all_splice1)
  show "storable (data (deleteTask ok idx a))"
    using assms
    by (simp add: deleteTask_def toast_def save_def scheduleRender_def Let_def
        storable_def list_all_splice1)
qed

end
